theory Spec2Isabelle
  imports Complex_Main
begin

section \<open>Conventions of the embedding\<close>

text \<open>
  The development embeds the statistical core of \<^verbatim>\<open>server/nlp.ts\<close>.

  \<^item> A JavaScript string is a \<open>string\<close>: a list of code units below 256 (the Latin-1
    range); character classes of regular expressions are predicates on the code.
  \<^item> A JavaScript number is a \<open>jsnum\<close>: a real, one of the two infinities, or NaN, with
    the arithmetic and the comparisons of the language on them. A finite number is an
    exact real: rounding, overflow and the sign of zero are not modelled, so a finite
    result stated below is the value before rounding. A length, a
    count of loop rounds or an index is a \<open>nat\<close>; an array of cluster labels is an
    \<open>int list\<close>, since it holds \<open>-1\<close>.
  \<^item> A value read from a record is a \<open>jsval\<close>: \<^verbatim>\<open>undefined\<close>, a number, a string that
    does not read as a number, or an object.
  \<^item> A \<^verbatim>\<open>Record<string, number>\<close> is an association list of its own properties in
    insertion order, which is the order of \<^verbatim>\<open>Object.keys\<close>, \<^verbatim>\<open>Object.entries\<close> and
    \<^verbatim>\<open>for ... in\<close> for keys that are not array indices. Every record of the source is
    created by \<^verbatim>\<open>{}\<close>, so a read of a key that is not an own property finds the
    properties of \<^verbatim>\<open>Object.prototype\<close>, and an assignment to \<^verbatim>\<open>__proto__\<close> creates no
    own property.
  \<^item> \<^verbatim>\<open>Array.prototype.sort\<close> is stable. For a comparator that never yields NaN on the
    array the result is the one of the stable insertion sort \<open>sort_cmp\<close>; where the
    comparator yields NaN for some pair, the language leaves the order to the
    implementation, and the model keeps the order of the insertion sort.
  \<^item> A \<^verbatim>\<open>throw\<close> is the \<open>Inl\<close> of a sum; a loop that may not terminate returns an
    \<open>option\<close>, \<open>None\<close> standing for no return.
\<close>

section \<open>Characters and regular-expression classes\<close>

definition code :: "char \<Rightarrow> nat" where
  "code c = of_char c"

text \<open>\<^verbatim>\<open>[A-Z]\<close>, \<^verbatim>\<open>[a-z]\<close>, \<^verbatim>\<open>\d\<close>, \<^verbatim>\<open>\w\<close> and \<^verbatim>\<open>\s\<close> (which is also the set that
  \<^verbatim>\<open>trim\<close> strips) on code units below 256.\<close>

definition is_upper :: "char \<Rightarrow> bool" where
  "is_upper c = (65 \<le> code c \<and> code c \<le> 90)"

definition is_lower :: "char \<Rightarrow> bool" where
  "is_lower c = (97 \<le> code c \<and> code c \<le> 122)"

definition is_letter :: "char \<Rightarrow> bool" where
  "is_letter c = (is_upper c \<or> is_lower c)"

definition is_digit :: "char \<Rightarrow> bool" where
  "is_digit c = (48 \<le> code c \<and> code c \<le> 57)"

definition is_word :: "char \<Rightarrow> bool" where
  "is_word c = (is_letter c \<or> is_digit c \<or> code c = 95)"

definition is_space :: "char \<Rightarrow> bool" where
  "is_space c = ((9 \<le> code c \<and> code c \<le> 13) \<or> code c = 32 \<or> code c = 160)"

definition newline :: char where
  "newline = CHR 0x0A"

definition backslash :: char where
  "backslash = CHR 0x5C"

definition apostrophe :: char where
  "apostrophe = CHR 0x27"

text \<open>\<^verbatim>\<open>String.prototype.toLowerCase\<close>: the ASCII capitals and the Latin-1 capitals
  (\<open>0xC0\<close> to \<open>0xDE\<close> without the multiplication sign \<open>0xD7\<close>) move up by 32.\<close>

definition lower_char :: "char \<Rightarrow> char" where
  "lower_char c =
     (if is_upper c \<or> (192 \<le> code c \<and> code c \<le> 222 \<and> code c \<noteq> 215)
      then char_of (code c + 32) else c)"

definition toLowerCase :: "string \<Rightarrow> string" where
  "toLowerCase s = map lower_char s"

text \<open>\<^verbatim>\<open>s.trim()\<close>.\<close>

definition trim :: "string \<Rightarrow> string" where
  "trim s = rev (dropWhile is_space (rev (dropWhile is_space s)))"

text \<open>\<^verbatim>\<open>s.split(re)\<close> for a regular expression that never matches the empty string.
  The matcher \<open>m\<close> gives the length of the match of \<open>re\<close> that starts at the head of
  its argument, \<open>0\<close> when there is none. A match closes the current piece, also when
  the piece is empty, and the text after the last match is the last piece.\<close>

function split_re :: "(string \<Rightarrow> nat) \<Rightarrow> string \<Rightarrow> string list" where
  "split_re m [] = [[]]"
| "split_re m (c # cs) =
     (if 0 < m (c # cs) then [] # split_re m (drop (m (c # cs)) (c # cs))
      else (case split_re m cs of
              [] \<Rightarrow> [[c]]
            | p # ps \<Rightarrow> (c # p) # ps))"
  by pat_completeness auto
termination
  by (relation "measure (\<lambda>(m, s). length s)") auto

text \<open>The matchers of the expressions the source splits on: \<^verbatim>\<open>/\s+/\<close>, \<^verbatim>\<open>/\n/\<close>,
  \<^verbatim>\<open>/\n\n+/\<close>, the one-character string \<^verbatim>\<open>' '\<close>, and \<^verbatim>\<open>/\\s+/\<close>, which is a backslash
  followed by one or more letters \<open>s\<close>.\<close>

definition m_spaces :: "string \<Rightarrow> nat" where
  "m_spaces s = length (takeWhile is_space s)"

definition m_newline :: "string \<Rightarrow> nat" where
  "m_newline s = (case s of [] \<Rightarrow> 0 | c # _ \<Rightarrow> if c = newline then 1 else 0)"

definition m_blank_line :: "string \<Rightarrow> nat" where
  "m_blank_line s =
     (case s of
        c # d # _ \<Rightarrow> if c = newline \<and> d = newline
                     then length (takeWhile (\<lambda>x. x = newline) s) else 0
      | _ \<Rightarrow> 0)"

definition m_blank :: "string \<Rightarrow> nat" where
  "m_blank s = (case s of [] \<Rightarrow> 0 | c # _ \<Rightarrow> if c = CHR '' '' then 1 else 0)"

definition m_backslash_s :: "string \<Rightarrow> nat" where
  "m_backslash_s s =
     (case s of
        c # d # ds \<Rightarrow> if c = backslash \<and> d = CHR ''s''
                      then 2 + length (takeWhile (\<lambda>x. x = CHR ''s'') ds) else 0
      | _ \<Rightarrow> 0)"

text \<open>\<^verbatim>\<open>xs.join(sep)\<close>.\<close>

fun join :: "string \<Rightarrow> string list \<Rightarrow> string" where
  "join sep [] = []"
| "join sep [x] = x"
| "join sep (x # y # ys) = x @ sep @ join sep (y # ys)"

text \<open>\<^verbatim>\<open>s.includes(t)\<close>: \<open>t\<close> occurs in \<open>s\<close> as a contiguous substring.\<close>

fun is_prefix :: "string \<Rightarrow> string \<Rightarrow> bool" where
  "is_prefix [] s = True"
| "is_prefix (c # cs) [] = False"
| "is_prefix (c # cs) (d # ds) = (c = d \<and> is_prefix cs ds)"

fun includes_str :: "string \<Rightarrow> string \<Rightarrow> bool" where
  "includes_str [] t = (t = [])"
| "includes_str (c # cs) t = (is_prefix t (c # cs) \<or> includes_str cs t)"

section \<open>JavaScript numbers\<close>

datatype jsnum = Num real | PInf | MInf | NaN

text \<open>\<^verbatim>\<open>x + y\<close> on numbers.\<close>

fun js_plus :: "jsnum \<Rightarrow> jsnum \<Rightarrow> jsnum" where
  "js_plus (Num a) (Num b) = Num (a + b)"
| "js_plus NaN y = NaN"
| "js_plus x NaN = NaN"
| "js_plus PInf MInf = NaN"
| "js_plus MInf PInf = NaN"
| "js_plus PInf y = PInf"
| "js_plus x PInf = PInf"
| "js_plus MInf y = MInf"
| "js_plus x MInf = MInf"

fun js_uminus :: "jsnum \<Rightarrow> jsnum" where
  "js_uminus (Num a) = Num (- a)"
| "js_uminus PInf = MInf"
| "js_uminus MInf = PInf"
| "js_uminus NaN = NaN"

text \<open>The sign of a number: \<open>-1\<close>, \<open>0\<close> or \<open>1\<close> (\<open>0\<close> for NaN), and the infinity of a
  sign, which is NaN for the sign \<open>0\<close>.\<close>

fun js_sign :: "jsnum \<Rightarrow> real" where
  "js_sign (Num a) = sgn a"
| "js_sign PInf = 1"
| "js_sign MInf = - 1"
| "js_sign NaN = 0"

definition signed_inf :: "real \<Rightarrow> jsnum" where
  "signed_inf s = (if s = 0 then NaN else if 0 < s then PInf else MInf)"

text \<open>\<^verbatim>\<open>x * y\<close>: an infinity times zero is NaN.\<close>

fun js_times :: "jsnum \<Rightarrow> jsnum \<Rightarrow> jsnum" where
  "js_times (Num a) (Num b) = Num (a * b)"
| "js_times NaN y = NaN"
| "js_times x NaN = NaN"
| "js_times x y = signed_inf (js_sign x * js_sign y)"

text \<open>\<^verbatim>\<open>x / y\<close>: a finite number by zero is an infinity of its sign, zero by zero is NaN
  (the zero divisor counts as positive), a finite number by an infinity is zero.\<close>

fun js_divide :: "jsnum \<Rightarrow> jsnum \<Rightarrow> jsnum" where
  "js_divide (Num a) (Num b) = (if b = 0 then signed_inf (sgn a) else Num (a / b))"
| "js_divide NaN y = NaN"
| "js_divide x NaN = NaN"
| "js_divide (Num a) y = Num 0"
| "js_divide x (Num b) = signed_inf (js_sign x * (if b < 0 then - 1 else 1))"
| "js_divide x y = NaN"

text \<open>\<^verbatim>\<open>x < y\<close>: false when either side is NaN.\<close>

fun js_less :: "jsnum \<Rightarrow> jsnum \<Rightarrow> bool" where
  "js_less (Num a) (Num b) = (a < b)"
| "js_less NaN y = False"
| "js_less x NaN = False"
| "js_less x MInf = False"
| "js_less PInf y = False"
| "js_less x y = True"

text \<open>The operators and the numerals of the language on \<open>jsnum\<close>: \<open>x - y\<close> is
  \<open>x + (- y)\<close>, and \<open>x \<le> y\<close> is \<^verbatim>\<open>x <= y\<close>.\<close>

instantiation jsnum :: "{zero, one, plus, minus, uminus, times, inverse, ord}"
begin

definition zero_jsnum :: jsnum where
  "zero_jsnum = Num 0"

definition one_jsnum :: jsnum where
  "one_jsnum = Num 1"

definition plus_jsnum :: "jsnum \<Rightarrow> jsnum \<Rightarrow> jsnum" where
  "plus_jsnum = js_plus"

definition uminus_jsnum :: "jsnum \<Rightarrow> jsnum" where
  "uminus_jsnum = js_uminus"

definition minus_jsnum :: "jsnum \<Rightarrow> jsnum \<Rightarrow> jsnum" where
  "minus_jsnum x y = js_plus x (js_uminus y)"

definition times_jsnum :: "jsnum \<Rightarrow> jsnum \<Rightarrow> jsnum" where
  "times_jsnum = js_times"

definition divide_jsnum :: "jsnum \<Rightarrow> jsnum \<Rightarrow> jsnum" where
  "divide_jsnum = js_divide"

definition inverse_jsnum :: "jsnum \<Rightarrow> jsnum" where
  "inverse_jsnum x = js_divide (Num 1) x"

definition less_jsnum :: "jsnum \<Rightarrow> jsnum \<Rightarrow> bool" where
  "less_jsnum = js_less"

definition less_eq_jsnum :: "jsnum \<Rightarrow> jsnum \<Rightarrow> bool" where
  "less_eq_jsnum x y = (js_less x y \<or> (x = y \<and> x \<noteq> NaN))"

instance ..

end

instance jsnum :: semigroup_add
proof
  fix a b c :: jsnum
  show "a + b + c = a + (b + c)"
    by (cases a; cases b; cases c) (simp_all add: plus_jsnum_def)
qed

instance jsnum :: numeral ..

text \<open>\<^verbatim>\<open>Math.sqrt\<close>, \<^verbatim>\<open>Math.log\<close> and \<^verbatim>\<open>Math.log10\<close>.\<close>

fun js_sqrt :: "jsnum \<Rightarrow> jsnum" where
  "js_sqrt (Num a) = (if a < 0 then NaN else Num (sqrt a))"
| "js_sqrt PInf = PInf"
| "js_sqrt MInf = NaN"
| "js_sqrt NaN = NaN"

fun js_ln :: "jsnum \<Rightarrow> jsnum" where
  "js_ln (Num a) = (if a < 0 then NaN else if a = 0 then MInf else Num (ln a))"
| "js_ln PInf = PInf"
| "js_ln MInf = NaN"
| "js_ln NaN = NaN"

fun js_log10 :: "jsnum \<Rightarrow> jsnum" where
  "js_log10 (Num a) = (if a < 0 then NaN else if a = 0 then MInf else Num (log 10 a))"
| "js_log10 PInf = PInf"
| "js_log10 MInf = NaN"
| "js_log10 NaN = NaN"

text \<open>\<^verbatim>\<open>Math.max(x, y)\<close> and \<^verbatim>\<open>Math.min(x, y)\<close>: NaN when either argument is NaN.\<close>

definition js_max :: "jsnum \<Rightarrow> jsnum \<Rightarrow> jsnum" where
  "js_max x y = (if x = NaN \<or> y = NaN then NaN else if x < y then y else x)"

definition js_min :: "jsnum \<Rightarrow> jsnum \<Rightarrow> jsnum" where
  "js_min x y = (if x = NaN \<or> y = NaN then NaN else if y < x then y else x)"

text \<open>\<^verbatim>\<open>Math.max\<close> of a list of arguments, \<open>-Infinity\<close> for none.\<close>

definition Math_max :: "jsnum list \<Rightarrow> jsnum" where
  "Math_max xs = foldl js_max MInf xs"

text \<open>A number as a condition: zero and NaN are false.\<close>

definition truthy_num :: "jsnum \<Rightarrow> bool" where
  "truthy_num x = (x \<noteq> Num 0 \<and> x \<noteq> NaN)"

section \<open>Values and records\<close>

text \<open>What a read of a record of the source can give: \<^verbatim>\<open>undefined\<close>, a number, a
  string, or an object. The strings that arise here are the source text of a function or
  \<^verbatim>\<open>[object Object]\<close> with digits before or after; they are not empty, and none reads
  as a number. The objects are \<^verbatim>\<open>Object.prototype\<close> and its functions.\<close>

datatype jsval = Undefined | Number jsnum | Text | Object

text \<open>A value as a condition, and \<^verbatim>\<open>ToNumber\<close>, which the operators \<^verbatim>\<open>*\<close>, \<^verbatim>\<open>/\<close>,
  \<^verbatim>\<open>-\<close> and \<^verbatim>\<open><\<close> apply to an operand.\<close>

fun truthy :: "jsval \<Rightarrow> bool" where
  "truthy Undefined = False"
| "truthy (Number x) = truthy_num x"
| "truthy Text = True"
| "truthy Object = True"

fun to_number :: "jsval \<Rightarrow> jsnum" where
  "to_number (Number x) = x"
| "to_number Undefined = NaN"
| "to_number Text = NaN"
| "to_number Object = NaN"

text \<open>\<^verbatim>\<open>a || b\<close>, and \<^verbatim>\<open>a + b\<close>, which concatenates strings when an operand is a string
  or an object.\<close>

definition js_or :: "jsval \<Rightarrow> jsval \<Rightarrow> jsval" where
  "js_or a b = (if truthy a then a else b)"

definition js_add :: "jsval \<Rightarrow> jsval \<Rightarrow> jsval" where
  "js_add a b =
     (if a = Text \<or> a = Object \<or> b = Text \<or> b = Object then Text
      else Number (to_number a + to_number b))"

text \<open>The names of the properties of \<^verbatim>\<open>Object.prototype\<close>.\<close>

definition prototype_names :: "string list" where
  "prototype_names =
     [''constructor'', ''__defineGetter__'', ''__defineSetter__'', ''hasOwnProperty'',
      ''__lookupGetter__'', ''__lookupSetter__'', ''isPrototypeOf'',
      ''propertyIsEnumerable'', ''toString'', ''valueOf'', ''__proto__'',
      ''toLocaleString'']"

text \<open>\<^verbatim>\<open>r[k]\<close> as a read: the own property, else the inherited one, else
  \<^verbatim>\<open>undefined\<close>.\<close>

definition get :: "(string \<times> jsval) list \<Rightarrow> string \<Rightarrow> jsval" where
  "get r k =
     (case map_of r k of
        Some v \<Rightarrow> v
      | None \<Rightarrow> if k \<in> set prototype_names then Object else Undefined)"

text \<open>The same read on a record whose own properties are all numbers.\<close>

type_synonym weights = "(string \<times> jsnum) list"

definition get_num :: "weights \<Rightarrow> string \<Rightarrow> jsval" where
  "get_num r k =
     (case map_of r k of
        Some x \<Rightarrow> Number x
      | None \<Rightarrow> if k \<in> set prototype_names then Object else Undefined)"

text \<open>\<^verbatim>\<open>r[k] = v\<close> for a number or a string \<open>v\<close>: an existing property keeps its place,
  a new one goes last, and the key \<^verbatim>\<open>__proto__\<close> is the setter of the prototype, which
  ignores such a value.\<close>

fun assign :: "string \<Rightarrow> 'v \<Rightarrow> (string \<times> 'v) list \<Rightarrow> (string \<times> 'v) list" where
  "assign k v [] = [(k, v)]"
| "assign k v ((a, b) # r) = (if a = k then (a, v) # r else (a, b) # assign k v r)"

definition js_set :: "string \<Rightarrow> 'v \<Rightarrow> (string \<times> 'v) list \<Rightarrow> (string \<times> 'v) list" where
  "js_set k v r = (if k = ''__proto__'' then r else assign k v r)"

text \<open>\<^verbatim>\<open>r[k] = (r[k] || 0) + 1\<close>.\<close>

definition bump :: "(string \<times> jsval) list \<Rightarrow> string \<Rightarrow> (string \<times> jsval) list" where
  "bump r k = js_set k (js_add (js_or (get r k) (Number 0)) (Number 1)) r"

text \<open>\<^verbatim>\<open>ws.forEach(w => r[w] = (r[w] || 0) + 1)\<close> from the empty record.\<close>

definition count_all :: "string list \<Rightarrow> (string \<times> jsval) list" where
  "count_all ws = foldl bump [] ws"

text \<open>\<^verbatim>\<open>xs.sort(cmp)\<close>: the stable insertion sort; \<open>x\<close> goes behind \<open>y\<close> when
  \<open>cmp x y\<close> is positive.\<close>

fun insort_cmp :: "('a \<Rightarrow> 'a \<Rightarrow> jsnum) \<Rightarrow> 'a \<Rightarrow> 'a list \<Rightarrow> 'a list" where
  "insort_cmp cmp x [] = [x]"
| "insort_cmp cmp x (y # ys) =
     (if 0 < cmp x y then y # insort_cmp cmp x ys else x # y # ys)"

definition sort_cmp :: "('a \<Rightarrow> 'a \<Rightarrow> jsnum) \<Rightarrow> 'a list \<Rightarrow> 'a list" where
  "sort_cmp cmp xs = foldr (insort_cmp cmp) xs []"

text \<open>\<^verbatim>\<open>xs.sort((a, b) => b.score - a.score)\<close>.\<close>

definition sort_desc :: "('a \<Rightarrow> jsnum) \<Rightarrow> 'a list \<Rightarrow> 'a list" where
  "sort_desc f xs = sort_cmp (\<lambda>a b. f b - f a) xs"

text \<open>\<^verbatim>\<open>new Set(xs)\<close> iterated: the elements of \<open>xs\<close> in the order of their first
  occurrence.\<close>

fun uniq :: "'a list \<Rightarrow> 'a list" where
  "uniq [] = []"
| "uniq (x # xs) = x # uniq (filter (\<lambda>y. y \<noteq> x) xs)"

section \<open>Tokenizer\<close>

definition STOPWORDS :: "string list" where
  "STOPWORDS = [
    ''a'', ''about'', ''above'', ''after'', ''again'', ''against'', ''all'', ''am'',
    ''an'', ''and'', ''any'', ''are'', ''aren't'', ''as'', ''at'', ''be'', ''because'',
    ''been'', ''before'', ''being'', ''below'', ''between'', ''both'', ''but'', ''by'',
    ''can't'', ''cannot'', ''could'', ''couldn't'', ''did'', ''didn't'', ''do'', ''does'',
    ''doesn't'', ''doing'', ''don't'', ''down'', ''during'', ''each'', ''few'', ''for'',
    ''from'', ''further'', ''had'', ''hadn't'', ''has'', ''hasn't'', ''have'', ''haven't'',
    ''having'', ''he'', ''he'd'', ''he'll'', ''he's'', ''her'', ''here'', ''here's'',
    ''hers'', ''herself'', ''him'', ''himself'', ''his'', ''how'', ''how's'', ''i'',
    ''i'd'', ''i'll'', ''i'm'', ''i've'', ''if'', ''in'', ''into'', ''is'', ''isn't'',
    ''it'', ''it's'', ''its'', ''itself'', ''let's'', ''me'', ''more'', ''most'',
    ''mustn't'', ''my'', ''myself'', ''no'', ''nor'', ''not'', ''of'', ''off'', ''on'',
    ''once'', ''only'', ''or'', ''other'', ''ought'', ''our'', ''ours'', ''ourselves'',
    ''out'', ''over'', ''own'', ''same'', ''shan't'', ''she'', ''she'd'', ''she'll'',
    ''she's'', ''should'', ''shouldn't'', ''so'', ''some'', ''such'', ''than'', ''that'',
    ''that's'', ''the'', ''their'', ''theirs'', ''them'', ''themselves'', ''then'',
    ''there'', ''there's'', ''these'', ''they'', ''they'd'', ''they'll'', ''they're'',
    ''they've'', ''this'', ''those'', ''through'', ''to'', ''too'', ''under'', ''until'',
    ''up'', ''very'', ''was'', ''wasn't'', ''we'', ''we'd'', ''we'll'', ''we're'',
    ''we've'', ''were'', ''weren't'', ''what'', ''what's'', ''when'', ''when's'',
    ''where'', ''where's'', ''which'', ''while'', ''who'', ''who's'', ''whom'', ''why'',
    ''why's'', ''with'', ''won't'', ''would'', ''wouldn't'', ''you'', ''you'd'',
    ''you'll'', ''you're'', ''you've'', ''your'', ''yours'', ''yourself'', ''yourselves'']"

text \<open>\<^verbatim>\<open>.replace(/[^\w\s']|\d+/g, ' ')\<close>: a character outside the three classes becomes
  a blank, and so does each maximal run of digits.\<close>

function strip_special :: "string \<Rightarrow> string" where
  "strip_special [] = []"
| "strip_special (c # cs) =
     (if \<not> is_word c \<and> \<not> is_space c \<and> c \<noteq> apostrophe then CHR '' '' # strip_special cs
      else if is_digit c then CHR '' '' # strip_special (dropWhile is_digit cs)
      else c # strip_special cs)"
  by pat_completeness auto
termination
  by (relation "measure length") (auto simp: less_Suc_eq_le length_dropWhile_le)

definition tokenizeWords :: "string \<Rightarrow> string list" where
  "tokenizeWords text =
     (let cleaned = strip_special (toLowerCase text)
      in filter (\<lambda>w. length w > 0) (split_re m_spaces cleaned))"

text \<open>The three replacements of \<^verbatim>\<open>tokenizeSentences\<close>, each a left-to-right scan for
  the leftmost match. The flag of the second and third scan says whether the character
  before the current position is a word character, which decides \<^verbatim>\<open>\b\<close> in front of
  a letter.\<close>

text \<open>\<^verbatim>\<open>.replace(/([.?!])\s*([A-Z])/g, "$1\n$2")\<close>\<close>

function mark_endings :: "string \<Rightarrow> string" where
  "mark_endings [] = []"
| "mark_endings (c # cs) =
     (if c = CHR ''.'' \<or> c = CHR ''?'' \<or> c = CHR ''!''
      then (case dropWhile is_space cs of
              [] \<Rightarrow> c # mark_endings cs
            | d # ds \<Rightarrow> if is_upper d then c # newline # d # mark_endings ds
                        else c # mark_endings cs)
      else c # mark_endings cs)"
  by pat_completeness auto
termination
proof (relation "measure length")
  fix c :: char and cs x21 x22
  assume "dropWhile is_space cs = x21 # x22"
  then have "length (x21 # x22) \<le> length cs"
    by (metis length_dropWhile_le)
  then show "(x22, c # cs) \<in> measure length" by simp
qed auto

text \<open>\<^verbatim>\<open>.replace(/(\b[A-Z]\.\s*)/g, "$1 ")\<close>\<close>

function pad_initials :: "bool \<Rightarrow> string \<Rightarrow> string" where
  "pad_initials pw [] = []"
| "pad_initials pw [c] = [c]"
| "pad_initials pw (c # d # ds) =
     (if \<not> pw \<and> is_upper c \<and> d = CHR ''.''
      then c # d # takeWhile is_space ds @ CHR '' '' # pad_initials False (dropWhile is_space ds)
      else c # pad_initials (is_word c) (d # ds))"
  by pat_completeness auto
termination
  by (relation "measure (\<lambda>(pw, s). length s)")
     (auto simp: less_Suc_eq_le intro: le_trans [OF length_dropWhile_le])

text \<open>\<^verbatim>\<open>.replace(/(\b[A-Za-z]+\.)\s+(?=[A-Z])/g, "$1\n")\<close>\<close>

definition abbrev_match :: "string \<Rightarrow> (string \<times> string) option" where
  "abbrev_match s =
     (case dropWhile is_letter s of
        [] \<Rightarrow> None
      | d # ds \<Rightarrow>
          if d = CHR ''.'' \<and> takeWhile is_space ds \<noteq> []
             \<and> (case dropWhile is_space ds of [] \<Rightarrow> False | u # _ \<Rightarrow> is_upper u)
          then Some (takeWhile is_letter s @ [d], dropWhile is_space ds)
          else None)"

function break_abbrevs :: "bool \<Rightarrow> string \<Rightarrow> string" where
  "break_abbrevs pw [] = []"
| "break_abbrevs pw (c # cs) =
     (case (if \<not> pw \<and> is_letter c then abbrev_match (c # cs) else None) of
        Some (m, rest) \<Rightarrow> m @ newline # break_abbrevs False rest
      | None \<Rightarrow> c # break_abbrevs (is_word c) cs)"
  by pat_completeness auto
termination
proof (relation "measure (\<lambda>(pw, s). length s)")
  fix pw :: bool and c :: char and cs m rest and x2 :: "string \<times> string"
  assume m: "(if \<not> pw \<and> is_letter c then abbrev_match (c # cs) else None) = Some x2"
    and x2: "(m, rest) = x2"
  from m x2 have am: "abbrev_match (c # cs) = Some (m, rest)"
    by (simp split: if_splits)
  show "((False, rest), (pw, c # cs)) \<in> measure (\<lambda>(pw, s). length s)"
  proof (cases "dropWhile is_letter (c # cs)")
    case Nil
    with am show ?thesis by (simp add: abbrev_match_def)
  next
    case (Cons d ds)
    with am have rest: "rest = dropWhile is_space ds"
      by (simp add: abbrev_match_def split: if_splits)
    have "length rest \<le> length ds"
      unfolding rest by (rule length_dropWhile_le)
    moreover have "length (d # ds) \<le> length (c # cs)"
      using length_dropWhile_le [of is_letter "c # cs"] Cons by simp
    ultimately show ?thesis by simp
  qed
qed auto

definition tokenizeSentences :: "string \<Rightarrow> string list" where
  "tokenizeSentences text =
     (let prepared = break_abbrevs False (pad_initials False (mark_endings text))
      in filter (\<lambda>s. length (trim s) > 0) (split_re m_newline prepared))"

section \<open>Frequency engine\<close>

text \<open>The test \<^verbatim>\<open>!STOPWORDS.has(w) && w.length > 2\<close>.\<close>

definition is_content :: "string \<Rightarrow> bool" where
  "is_content w = (w \<notin> set STOPWORDS \<and> length w > 2)"

text \<open>\<^verbatim>\<open>tf[word] = wordCount[word] / totalWords\<close> for every key of \<open>wordCount\<close>.\<close>

definition calculateTF :: "string \<Rightarrow> weights" where
  "calculateTF text =
     (let words = tokenizeWords text;
          wordCount = count_all (filter is_content words);
          totalWords = length words
      in map (\<lambda>(word, n). (word, to_number n / Num (real totalWords))) wordCount)"

text \<open>The document counts of \<^verbatim>\<open>calculateIDF\<close>: each document bumps every word of its
  set of content words once.\<close>

definition wordDocs :: "string list \<Rightarrow> (string \<times> jsval) list" where
  "wordDocs documents =
     foldl (\<lambda>r doc. foldl bump r (uniq (filter is_content (tokenizeWords doc)))) [] documents"

text \<open>\<^verbatim>\<open>idf[word] = Math.log10((totalDocs + 1) / (wordDocs[word] + 1)) + 1\<close>\<close>

definition calculateIDF :: "string list \<Rightarrow> weights" where
  "calculateIDF documents =
     (let totalDocs = length documents
      in map (\<lambda>(word, n).
                (word, js_log10 (Num (real totalDocs + 1) / to_number (js_add n (Number 1))) + 1))
           (wordDocs documents))"

text \<open>\<^verbatim>\<open>tfidf[word] = tf[word] * (idf[word] || 1)\<close> for every key of \<open>tf\<close>.\<close>

definition calculateTFIDF :: "weights \<Rightarrow> weights \<Rightarrow> weights" where
  "calculateTFIDF tf idf =
     map (\<lambda>(word, x). (word, x * to_number (js_or (get_num idf word) (Number 1)))) tf"

text \<open>The loop \<^verbatim>\<open>for (let i = 0; i <= words.length - n; i++)\<close> runs
  \<open>words.length - n + 1\<close> times when \<open>n \<le> words.length\<close> and not at all otherwise.\<close>

definition extractPhrases :: "string \<Rightarrow> nat \<Rightarrow> (string \<times> jsval) list" where
  "extractPhrases text n =
     (let words = filter is_content (tokenizeWords text)
      in count_all (map (\<lambda>i. join '' '' (take n (drop i words)))
                        [0 ..< Suc (length words) - n]))"

definition wordInDocCount :: "string list \<Rightarrow> (string \<times> jsval) list" where
  "wordInDocCount documents =
     foldl (\<lambda>r doc. foldl bump r (uniq (tokenizeWords doc))) [] documents"

text \<open>\<^verbatim>\<open>result[word] = Math.log((docCount + 1) / (wordInDocCount[word] + 1) + 1)\<close>\<close>

definition calculateIDFWithSmoothing :: "string list \<Rightarrow> weights" where
  "calculateIDFWithSmoothing documents =
     (let docCount = length documents
      in map (\<lambda>(word, n).
                (word, js_ln (Num (real docCount + 1) / to_number (js_add n (Number 1)) + 1)))
           (wordInDocCount documents))"

section \<open>Similarity engine and sentence clusterer\<close>

text \<open>The first loop of \<^verbatim>\<open>cosineSimilarity\<close> adds \<^verbatim>\<open>vectorA[key] * vectorB[key]\<close> for
  every key of \<open>vectorA\<close> that passes the guard \<^verbatim>\<open>if (vectorB[key])\<close>; both loops add the
  squares.\<close>

definition dotProduct :: "(string \<times> jsval) list \<Rightarrow> (string \<times> jsval) list \<Rightarrow> jsnum" where
  "dotProduct vectorA vectorB =
     foldl (\<lambda>dot (key, x).
              if truthy (get vectorB key)
              then dot + to_number x * to_number (get vectorB key) else dot)
           0 vectorA"

definition sumSquares :: "(string \<times> jsval) list \<Rightarrow> jsnum" where
  "sumSquares v = foldl (\<lambda>magnitude (key, x). magnitude + to_number x * to_number x) 0 v"

definition cosineSimilarity :: "(string \<times> jsval) list \<Rightarrow> (string \<times> jsval) list \<Rightarrow> jsnum" where
  "cosineSimilarity vectorA vectorB =
     (let magnitudeA = js_sqrt (sumSquares vectorA);
          magnitudeB = js_sqrt (sumSquares vectorB)
      in if magnitudeA = 0 \<or> magnitudeB = 0 then 0
         else dotProduct vectorA vectorB / (magnitudeA * magnitudeB))"

text \<open>The word counts \<^verbatim>\<open>vecA\<close> and \<^verbatim>\<open>vecB\<close> of \<^verbatim>\<open>calculateSentenceSimilarity\<close>.\<close>

definition wordVector :: "string \<Rightarrow> (string \<times> jsval) list" where
  "wordVector sent = count_all (tokenizeWords sent)"

definition calculateSentenceSimilarity :: "string \<Rightarrow> string \<Rightarrow> jsnum" where
  "calculateSentenceSimilarity sentA sentB = cosineSimilarity (wordVector sentA) (wordVector sentB)"

text \<open>The inner loop of \<^verbatim>\<open>clusterSimilarSentences\<close> over \<open>j\<close>, for the opening sentence
  \<open>i\<close> and its label \<open>clusterCount\<close>; the label array is passed through.\<close>

function cluster_inner :: "string list \<Rightarrow> nat \<Rightarrow> int \<Rightarrow> nat \<Rightarrow> int list \<Rightarrow> int list" where
  "cluster_inner sentences i clusterCount j clusters =
     (if j < length sentences
      then cluster_inner sentences i clusterCount (Suc j)
             (if clusters ! j = - 1
                 \<and> calculateSentenceSimilarity (sentences ! i) (sentences ! j) > 0.5
              then clusters[j := clusterCount] else clusters)
      else clusters)"
  by pat_completeness auto
termination
  by (relation "measure (\<lambda>(sentences, i, clusterCount, j, clusters). length sentences - j)") auto

text \<open>The outer loop over \<open>i\<close>, with the state \<open>(clusterCount, clusters)\<close>.\<close>

function cluster_outer :: "string list \<Rightarrow> nat \<Rightarrow> int \<Rightarrow> int list \<Rightarrow> int list" where
  "cluster_outer sentences i clusterCount clusters =
     (if i < length sentences
      then (if clusters ! i = - 1
            then cluster_outer sentences (Suc i) (clusterCount + 1)
                   (cluster_inner sentences i clusterCount (Suc i) (clusters[i := clusterCount]))
            else cluster_outer sentences (Suc i) clusterCount clusters)
      else clusters)"
  by pat_completeness auto
termination
  by (relation "measure (\<lambda>(sentences, i, clusterCount, clusters). length sentences - i)") auto

definition clusterSimilarSentences :: "string list \<Rightarrow> int list" where
  "clusterSimilarSentences sentences =
     cluster_outer sentences 0 0 (replicate (length sentences) (- 1))"

text \<open>The clustering as the specification words it: in one pass from left to right, a
  sentence joins the earliest opened cluster whose opening sentence it is similar to
  (similarity above 0.5), and opens the next cluster when there is none. \<open>openers\<close> are
  the opening sentences so far, in the order of their labels.\<close>

fun first_similar :: "string list \<Rightarrow> string \<Rightarrow> nat option" where
  "first_similar [] s = None"
| "first_similar (opener # openers) s =
     (if calculateSentenceSimilarity opener s > 0.5 then Some 0
      else map_option Suc (first_similar openers s))"

fun label_by_opener :: "string list \<Rightarrow> string list \<Rightarrow> nat list" where
  "label_by_opener openers [] = []"
| "label_by_opener openers (s # ss) =
     (case first_similar openers s of
        Some k \<Rightarrow> k # label_by_opener openers ss
      | None \<Rightarrow> length openers # label_by_opener (openers @ [s]) ss)"

definition cluster_by_opener :: "string list \<Rightarrow> nat list" where
  "cluster_by_opener sentences = label_by_opener [] sentences"

section \<open>Summarizer\<close>

text \<open>\<^verbatim>\<open>SummarizationRequest\<close>; the fields \<^verbatim>\<open>text\<close> and \<^verbatim>\<open>length\<close> are \<open>sum_text\<close> and
  \<open>sum_length\<close> here.\<close>

record summarization_request =
  sum_text :: string
  sum_length :: string
  style :: string

record scored_sentence =
  sentence :: string
  originalIndex :: nat
  score :: jsnum
  cluster :: int

definition lengthRatio :: "string \<Rightarrow> real" where
  "lengthRatio len = (if len = ''short'' then 0.15 else if len = ''medium'' then 0.3 else 0.45)"

definition numSentences :: "string \<Rightarrow> string list \<Rightarrow> nat" where
  "numSentences len sentences =
     max 1 (nat \<lceil>real (length sentences) * lengthRatio len\<rceil>)"

text \<open>\<^verbatim>\<open>text.split(/\n\n+/).filter(p => p.trim().length > 0)\<close>\<close>

definition paragraphs :: "string \<Rightarrow> string list" where
  "paragraphs txt = filter (\<lambda>p. length (trim p) > 0) (split_re m_blank_line txt)"

definition summary_documents :: "string \<Rightarrow> string list \<Rightarrow> string list" where
  "summary_documents txt sentences =
     (if length (paragraphs txt) > 1 then paragraphs txt else sentences)"

text \<open>The weight a phrase is stored with,
  \<^verbatim>\<open>(count / documents.length) * phraseMultiplier * 1.5\<close>; \<open>wordCount\<close> is what
  \<^verbatim>\<open>phrase.split(/\\s+/).length\<close> computes.\<close>

definition phraseWeight :: "string \<Rightarrow> jsval \<Rightarrow> nat \<Rightarrow> jsnum" where
  "phraseWeight phrase n docCount =
     (let wordCount = length (split_re m_backslash_s phrase);
          phraseMultiplier = Num (1 + (real wordCount - 1) * 0.25)
      in (to_number n / Num (real docCount)) * phraseMultiplier * 1.5)"

text \<open>\<^verbatim>\<open>keywordScores\<close>: a copy of \<open>tfidf\<close>, then one assignment for each phrase counted
  more than once.\<close>

definition keywordScores :: "weights \<Rightarrow> (string \<times> jsval) list \<Rightarrow> nat \<Rightarrow> weights" where
  "keywordScores tfidf phrases docCount =
     foldl (\<lambda>ks (phrase, n).
              if 1 < to_number n then js_set phrase (phraseWeight phrase n docCount) ks else ks)
           tfidf phrases"

text \<open>\<^verbatim>\<open>scoreSentences\<close>: \<^verbatim>\<open>if (keywords[word]) score += keywords[word]\<close> for every
  word, then \<^verbatim>\<open>score / (words.length + 0.1)\<close>. The sum is a value, since adding an
  inherited property turns it into a string.\<close>

definition scoreSentences :: "string list \<Rightarrow> weights \<Rightarrow> jsnum list" where
  "scoreSentences sentences keywords =
     map (\<lambda>sent.
            let words = tokenizeWords sent;
                sc = foldl (\<lambda>acc word.
                              if truthy (get_num keywords word)
                              then js_add acc (get_num keywords word) else acc)
                           (Number 0) words
            in to_number sc / (Num (real (length words)) + 0.1))
         sentences"

definition getEnhancedPositionWeight :: "nat \<Rightarrow> nat \<Rightarrow> jsnum" where
  "getEnhancedPositionWeight index n =
     (if n < 5 then 1.0
      else (let relativePos = real index / (real n - 1)
            in if relativePos \<le> 0.1 then 1.3
               else if relativePos \<ge> 0.9 then 1.2
               else if relativePos \<ge> 0.4 \<and> relativePos \<le> 0.6 then 0.9
               else 1.0))"

text \<open>Step 9: \<open>sentenceLength\<close> is \<^verbatim>\<open>sentences[index].split(/\\s+/).length\<close>.\<close>

definition lengthFactor :: "string \<Rightarrow> jsnum" where
  "lengthFactor sent =
     (let sentenceLength = length (split_re m_backslash_s sent)
      in if sentenceLength < 5 then 0.7
         else if sentenceLength > 40 then 0.8
         else 1.0)"

text \<open>\<^verbatim>\<open>Object.entries(phrases).sort((a, b) => b[1] - a[1]).slice(0, 5)\<close>\<close>

definition topPhrases :: "(string \<times> jsval) list \<Rightarrow> string list" where
  "topPhrases phrases = map fst (take 5 (sort_desc (\<lambda>entry. to_number (snd entry)) phrases))"

definition phraseBoost :: "string list \<Rightarrow> string \<Rightarrow> jsnum" where
  "phraseBoost tops sent =
     foldl (\<lambda>boost phrase. if includes_str sent phrase then boost + 0.2 else boost) 1.0 tops"

text \<open>Steps 2 to 6: the merged keyword scores of a text with the given sentences.\<close>

definition summaryKeywordScores :: "string \<Rightarrow> string list \<Rightarrow> weights" where
  "summaryKeywordScores txt sentences =
     (let documents = summary_documents txt sentences;
          idf = calculateIDFWithSmoothing documents;
          tf = calculateTF txt;
          tfidf = calculateTFIDF tf idf;
          phrases = extractPhrases txt 3
      in keywordScores tfidf phrases (length documents))"

text \<open>Steps 7 to 10: the final score of every sentence.\<close>

definition sentenceScores :: "string \<Rightarrow> string list \<Rightarrow> jsnum list" where
  "sentenceScores txt sentences =
     (let initialSentenceScores = scoreSentences sentences (summaryKeywordScores txt sentences);
          tops = topPhrases (extractPhrases txt 3)
      in map (\<lambda>index.
                initialSentenceScores ! index
                  * getEnhancedPositionWeight index (length sentences)
                  * lengthFactor (sentences ! index)
                  * phraseBoost tops (sentences ! index))
             [0 ..< length sentences])"

definition scoredSentences :: "string \<Rightarrow> string list \<Rightarrow> scored_sentence list" where
  "scoredSentences txt sentences =
     (let scores = sentenceScores txt sentences;
          similarityClusters = clusterSimilarSentences sentences
      in map (\<lambda>index. \<lparr>sentence = sentences ! index, originalIndex = index,
                          score = scores ! index, cluster = similarityClusters ! index\<rparr>)
             [0 ..< length sentences])"

definition rankedSentences :: "scored_sentence list \<Rightarrow> scored_sentence list" where
  "rankedSentences scoredList = sort_desc score scoredList"

text \<open>Step 12, the loop \<^verbatim>\<open>for (const sentence of rankedSentences)\<close> with the state
  \<open>(selectedSentences, selectedClusters)\<close>.\<close>

fun select_diverse ::
  "nat \<Rightarrow> scored_sentence list \<Rightarrow> scored_sentence list \<Rightarrow> int set \<Rightarrow> scored_sentence list" where
  "select_diverse num [] selected selectedClusters = selected"
| "select_diverse num (s # rest) selected selectedClusters =
     (if length selected \<ge> num then selected
      else if cluster s \<in> selectedClusters \<and> score s < 0.8
      then select_diverse num rest selected selectedClusters
      else select_diverse num rest (selected @ [s]) (insert (cluster s) selectedClusters))"

text \<open>The loop \<^verbatim>\<open>while (selectedSentences.length < numSentences && ...)\<close>. The scored
  sentences are distinct objects with distinct \<open>originalIndex\<close>, so \<^verbatim>\<open>includes\<close> on
  references is membership of the record. The loop need not terminate: \<open>None\<close> is no
  return.\<close>

partial_function (option) backfill ::
  "nat \<Rightarrow> scored_sentence list \<Rightarrow> scored_sentence list \<Rightarrow> scored_sentence list option" where
  "backfill num ranked selected =
     (if length selected < num \<and> length selected < length ranked
      then (let nextSentence = ranked ! length selected
            in if nextSentence \<notin> set selected
               then backfill num ranked (selected @ [nextSentence])
               else backfill num ranked selected)
      else Some selected)"

definition selectSentences :: "nat \<Rightarrow> scored_sentence list \<Rightarrow> scored_sentence list option" where
  "selectSentences num ranked = backfill num ranked (select_diverse num ranked [] {})"

text \<open>Steps 1 to 13 of \<^verbatim>\<open>enhancedSummarize\<close>: the selected sentences in reading order
  (\<^verbatim>\<open>orderedSentences\<close>). \<^verbatim>\<open>calculateTFWithBM25\<close> is called by the source, and its
  result is never read. Step 14 renders the ordered sentences to the summary string by
  \<^verbatim>\<open>map\<close>, \<^verbatim>\<open>replace\<close> and \<^verbatim>\<open>join\<close>, which neither throw nor loop; the response is
  represented by the ordered sentences.\<close>

definition enhancedSummarize :: "summarization_request \<Rightarrow> scored_sentence list option" where
  "enhancedSummarize request =
     (let sentences = tokenizeSentences (sum_text request);
          num = numSentences (sum_length request) sentences;
          ranked = rankedSentences (scoredSentences (sum_text request) sentences)
      in map_option (sort_key originalIndex) (selectSentences num ranked))"

text \<open>The errors: the three guards, the \<^verbatim>\<open>RangeError\<close> of a call with too many
  arguments, and the errors that the \<^verbatim>\<open>catch\<close> blocks throw.\<close>

datatype error =
  NoTextProvided
| RangeError
| KeywordExtractionFailed
| NoCompatibleAlgorithms string
| RecommendationFailed

text \<open>\<^verbatim>\<open>summarizeText\<close>: the guard throws before the \<^verbatim>\<open>try\<close>; nothing inside the
  \<^verbatim>\<open>try\<close> throws, so its \<^verbatim>\<open>catch\<close> has no branch here.\<close>

definition summarizeText :: "summarization_request \<Rightarrow> (error + scored_sentence list) option" where
  "summarizeText request =
     (if trim (sum_text request) = [] then Some (Inl NoTextProvided)
      else map_option Inr (enhancedSummarize request))"

section \<open>Keyword extractor\<close>

type_synonym keyword = "string \<times> jsnum"

text \<open>A keyword result \<^verbatim>\<open>{ keyword, score }\<close> is the pair of the two.\<close>

definition kw_score :: "keyword \<Rightarrow> jsnum" where
  "kw_score k = snd k"

text \<open>\<^verbatim>\<open>Math.max(...xs)\<close>: the array is spread into the arguments of one call, which
  throws a \<^verbatim>\<open>RangeError\<close> when there are more of them than the engine takes. That
  number is not part of the source; it is the parameter \<open>argLimit\<close> of every function
  that spreads a list of keywords.\<close>

definition Math_max_spread :: "nat \<Rightarrow> jsnum list \<Rightarrow> error + jsnum" where
  "Math_max_spread argLimit xs =
     (if argLimit < length xs then Inl RangeError else Inr (Math_max xs))"

text \<open>\<^verbatim>\<open>Math.ceil(count * f)\<close> for a count.\<close>

definition ceil_times :: "nat \<Rightarrow> real \<Rightarrow> nat" where
  "ceil_times n f = nat \<lceil>real n * f\<rceil>"

definition extractWithStandardTFIDF :: "string \<Rightarrow> string list \<Rightarrow> nat \<Rightarrow> keyword list" where
  "extractWithStandardTFIDF txt documents n =
     (let tf = calculateTF txt;
          idf = calculateIDF documents;
          tfidf = calculateTFIDF tf idf
      in take n (sort_desc kw_score tfidf))"

text \<open>\<^verbatim>\<open>STOPWORDS.has(words[i])\<close>, where an index out of range reads \<^verbatim>\<open>undefined\<close>, which
  the set does not hold.\<close>

definition stop_at :: "string list \<Rightarrow> nat \<Rightarrow> bool" where
  "stop_at ws i = (i < length ws \<and> ws ! i \<in> set STOPWORDS)"

definition bigramKeywords :: "string \<Rightarrow> string list \<Rightarrow> keyword list" where
  "bigramKeywords txt documents =
     map (\<lambda>(phrase, freq). (phrase, to_number freq / Num (real (length documents)) * 1.2))
       (filter (\<lambda>(phrase, freq). 1 < to_number freq \<and> \<not> stop_at (split_re m_blank phrase) 0
                                  \<and> \<not> stop_at (split_re m_blank phrase) 1)
          (extractPhrases txt 2))"

definition trigramKeywords :: "string \<Rightarrow> string list \<Rightarrow> keyword list" where
  "trigramKeywords txt documents =
     map (\<lambda>(phrase, freq). (phrase, to_number freq / Num (real (length documents)) * 1.3))
       (filter (\<lambda>(phrase, freq).
                  let ws = split_re m_blank phrase
                  in \<not> stop_at ws 0 \<and> \<not> stop_at ws (length ws - 1))
          (filter (\<lambda>(phrase, freq). 1 < to_number freq) (extractPhrases txt 3)))"

text \<open>\<^verbatim>\<open>finalKeywords\<close> of \<^verbatim>\<open>extractWithEnhancedTFIDF\<close>, the list whose scores are spread
  into \<^verbatim>\<open>Math.max\<close>.\<close>

definition enhancedFinalKeywords :: "string \<Rightarrow> string list \<Rightarrow> nat \<Rightarrow> keyword list" where
  "enhancedFinalKeywords txt documents n =
     (let tfidfKeywords = extractWithStandardTFIDF txt documents (ceil_times n 1.5);
          allKeywords = tfidfKeywords @ bigramKeywords txt documents @ trigramKeywords txt documents
      in take n (sort_desc kw_score allKeywords))"

definition extractWithEnhancedTFIDF ::
  "nat \<Rightarrow> string \<Rightarrow> string list \<Rightarrow> nat \<Rightarrow> error + keyword list" where
  "extractWithEnhancedTFIDF argLimit txt documents n =
     (let finalKeywords = enhancedFinalKeywords txt documents n
      in case Math_max_spread argLimit (map kw_score finalKeywords) of
           Inl e \<Rightarrow> Inl e
         | Inr maxScore \<Rightarrow> Inr (map (\<lambda>(k, sc). (k, sc / maxScore)) finalKeywords))"

text \<open>The boost of \<^verbatim>\<open>extractWithSimulatedBERT\<close> for the keyword \<open>k\<close>; the reads of
  \<^verbatim>\<open>titleWordCounts\<close> are reads of a record.\<close>

definition boostFactor :: "(string \<times> jsval) list \<Rightarrow> nat \<Rightarrow> string \<Rightarrow> jsnum" where
  "boostFactor titleWordCounts titleCount k =
     (if \<not> includes_str k '' '' \<and> truthy (get titleWordCounts k)
      then 1.0 + 0.4 * (to_number (get titleWordCounts k) / Num (real titleCount))
      else if includes_str k '' ''
      then (let keywordParts = split_re m_blank k;
                partsInTitles =
                  length (filter (\<lambda>part. truthy (get titleWordCounts part)) keywordParts)
            in if partsInTitles > 0
               then 1.0 + 0.3 * (Num (real partsInTitles) / Num (real (length keywordParts)))
               else 1.0)
      else 1.0)"

text \<open>The loop \<^verbatim>\<open>for (const kw of boostedKeywords)\<close> with the state
  \<open>(uniqueKeywords, seen)\<close>; the \<^verbatim>\<open>break\<close> is tested after a push only.\<close>

fun dedupe :: "nat \<Rightarrow> keyword list \<Rightarrow> keyword list \<Rightarrow> string list \<Rightarrow> keyword list" where
  "dedupe n [] uniqueKeywords seen = uniqueKeywords"
| "dedupe n (kw # rest) uniqueKeywords seen =
     (if list_ex (\<lambda>seenKw. includes_str seenKw (fst kw)) seen
      then dedupe n rest uniqueKeywords seen
      else if length (uniqueKeywords @ [kw]) \<ge> n then uniqueKeywords @ [kw]
      else dedupe n rest (uniqueKeywords @ [kw]) (seen @ [fst kw]))"

definition extractWithSimulatedBERT ::
  "nat \<Rightarrow> string \<Rightarrow> string list \<Rightarrow> nat \<Rightarrow> error + keyword list" where
  "extractWithSimulatedBERT argLimit txt documents n =
     (let tfidfKeywords = extractWithStandardTFIDF txt documents (ceil_times n 1.2)
      in case extractWithEnhancedTFIDF argLimit txt documents (ceil_times n 0.8) of
           Inl e \<Rightarrow> Inl e
         | Inr enhanced \<Rightarrow>
             (let phraseKeywords = filter (\<lambda>k. includes_str (fst k) '' '') enhanced;
                  titleSentences =
                    map (\<lambda>doc. case tokenizeSentences doc of [] \<Rightarrow> [] | s # _ \<Rightarrow> s) documents;
                  titleWords = filter is_content (concat (map tokenizeWords titleSentences));
                  titleWordCounts = count_all titleWords;
                  boostedKeywords =
                    map (\<lambda>(k, sc). (k, sc * boostFactor titleWordCounts (length titleSentences) k))
                      (tfidfKeywords @ phraseKeywords);
                  uniqueKeywords = dedupe n (sort_desc kw_score boostedKeywords) [] []
              in case Math_max_spread argLimit (map kw_score uniqueKeywords) of
                   Inl e \<Rightarrow> Inl e
                 | Inr maxScore \<Rightarrow>
                     Inr (map (\<lambda>(k, sc). (k, js_min 1 (sc / maxScore))) uniqueKeywords)))"

text \<open>\<^verbatim>\<open>KeywordExtractionRequest\<close>; the field \<^verbatim>\<open>text\<close> is \<open>kw_text\<close>, \<^verbatim>\<open>count\<close> is
  \<open>kw_count\<close>, and \<^verbatim>\<open>method\<close> is \<open>kw_method\<close>.\<close>

record keyword_request =
  kw_text :: string
  kw_count :: nat
  kw_method :: string

text \<open>\<^verbatim>\<open>KeywordExtractionResponse\<close>; the fields \<^verbatim>\<open>keywords\<close> and \<^verbatim>\<open>method\<close> are
  \<open>resp_keywords\<close> and \<open>resp_method\<close>.\<close>

record keyword_response =
  resp_keywords :: "keyword list"
  resp_method :: string

text \<open>\<^verbatim>\<open>documents\<close> of \<^verbatim>\<open>enhancedExtractKeywords\<close>.\<close>

definition keyword_documents :: "string \<Rightarrow> string list" where
  "keyword_documents txt =
     (if length (paragraphs txt) > 1 then paragraphs txt else tokenizeSentences txt)"

definition enhancedExtractKeywords :: "nat \<Rightarrow> keyword_request \<Rightarrow> error + keyword_response" where
  "enhancedExtractKeywords argLimit request =
     (let txt = kw_text request;
          n = kw_count request;
          documents = keyword_documents txt;
          kws = (if kw_method request = ''enhanced_tfidf''
                 then extractWithEnhancedTFIDF argLimit txt documents n
                 else if kw_method request = ''bert_based''
                 then extractWithSimulatedBERT argLimit txt documents n
                 else if kw_method request = ''standard_tfidf''
                 then Inr (extractWithStandardTFIDF txt documents n)
                 else extractWithEnhancedTFIDF argLimit txt documents n)
      in case kws of
           Inl e \<Rightarrow> Inl e
         | Inr ks \<Rightarrow> Inr \<lparr>resp_keywords = ks, resp_method = ''enhanced_'' @ kw_method request\<rparr>)"

text \<open>\<^verbatim>\<open>extractKeywords\<close>: the guard throws before the \<^verbatim>\<open>try\<close>; the \<^verbatim>\<open>catch\<close> replaces
  whatever was thrown inside by one error.\<close>

definition extractKeywords :: "nat \<Rightarrow> keyword_request \<Rightarrow> error + keyword_response" where
  "extractKeywords argLimit request =
     (if trim (kw_text request) = [] then Inl NoTextProvided
      else (case enhancedExtractKeywords argLimit request of
              Inl e \<Rightarrow> Inl KeywordExtractionFailed
            | Inr response \<Rightarrow> Inr response))"

section \<open>Algorithm recommender\<close>

record algorithm =
  name :: string
  taskTypes :: "string list"
  resourceRequirements :: string
  quality :: string
  speed :: string
  specialFeatures :: "string list"

text \<open>The table \<^verbatim>\<open>algorithms\<close> in the order of its keys. The \<^verbatim>\<open>strengths\<close> and
  \<^verbatim>\<open>weaknesses\<close> of an entry are display texts that the scoring never reads; they are
  left out.\<close>

definition algorithms :: "algorithm list" where
  "algorithms = [
     \<lparr>name = ''enhanced_extractive_tfidf'', taskTypes = [''summarization''],
      resourceRequirements = ''low'', quality = ''medium'', speed = ''high'',
      specialFeatures = [''copyright-friendly'', ''extractive'', ''local-processing'']\<rparr>,
     \<lparr>name = ''bert_extractive'', taskTypes = [''summarization''],
      resourceRequirements = ''medium'', quality = ''high'', speed = ''medium'',
      specialFeatures = [''contextual-understanding'', ''extractive'']\<rparr>,
     \<lparr>name = ''bart_abstractive'', taskTypes = [''summarization''],
      resourceRequirements = ''high'', quality = ''very high'', speed = ''low'',
      specialFeatures = [''paraphrasing'', ''abstractive'', ''contextual-understanding'']\<rparr>,
     \<lparr>name = ''statistical_mt'', taskTypes = [''translation''],
      resourceRequirements = ''low'', quality = ''medium'', speed = ''high'',
      specialFeatures = [''local-processing'']\<rparr>,
     \<lparr>name = ''neural_transformer'', taskTypes = [''translation''],
      resourceRequirements = ''medium'', quality = ''high'', speed = ''medium'',
      specialFeatures = [''contextual-understanding'']\<rparr>,
     \<lparr>name = ''enhanced_template'', taskTypes = [''content_generation''],
      resourceRequirements = ''low'', quality = ''medium'', speed = ''very high'',
      specialFeatures = [''local-processing'', ''copyright-friendly'']\<rparr>,
     \<lparr>name = ''fine_tuned_gpt'', taskTypes = [''content_generation''],
      resourceRequirements = ''high'', quality = ''very high'', speed = ''low'',
      specialFeatures = [''creative'', ''contextual-understanding'', ''coherent'']\<rparr>,
     \<lparr>name = ''open_source_llm'', taskTypes = [''content_generation''],
      resourceRequirements = ''high'', quality = ''high'', speed = ''medium'',
      specialFeatures = [''creative'', ''configurable'']\<rparr>,
     \<lparr>name = ''enhanced_tfidf'', taskTypes = [''keyword_extraction''],
      resourceRequirements = ''very low'', quality = ''medium'', speed = ''very high'',
      specialFeatures = [''local-processing'', ''domain-agnostic'']\<rparr>,
     \<lparr>name = ''bert_keyword'', taskTypes = [''keyword_extraction''],
      resourceRequirements = ''medium'', quality = ''high'', speed = ''medium'',
      specialFeatures = [''contextual-understanding'', ''semantic-relationships'']\<rparr>]"

text \<open>\<^verbatim>\<open>AlgorithmRecommendationRequest\<close>; an optional field is an \<open>option\<close>.\<close>

record recommendation_request =
  taskType :: string
  textLength :: int
  contentDomain :: "string option"
  languageComplexity :: "string option"
  priorityFactor :: string
  specialRequirements :: "string list option"

definition tierScore :: "string \<Rightarrow> jsnum" where
  "tierScore tier =
     (if tier = ''very high'' then 2 else if tier = ''high'' then 1.5
      else if tier = ''medium'' then 1 else 0.5)"

text \<open>\<^verbatim>\<open>req.toLowerCase().replace(/_/g, '-')\<close>\<close>

definition normalizeRequirement :: "string \<Rightarrow> string" where
  "normalizeRequirement req = map (\<lambda>c. if c = CHR ''_'' then CHR ''-'' else c) (toLowerCase req)"

text \<open>The body of \<^verbatim>\<open>scoredAlgorithms = compatibleAlgorithms.map(...)\<close>: the score of
  one algorithm, one summand for each block of the source. \<^verbatim>\<open>if (contentDomain)\<close> holds
  for a string that is present and not empty.\<close>

definition algorithmScore :: "recommendation_request \<Rightarrow> algorithm \<Rightarrow> jsnum" where
  "algorithmScore request algo =
     (if priorityFactor request = ''speed'' \<and> speed algo \<in> {''high'', ''very high''} then 3
      else if priorityFactor request = ''quality'' \<and> quality algo \<in> {''high'', ''very high''} then 3
      else if priorityFactor request = ''balanced''
      then tierScore (speed algo) + tierScore (quality algo)
      else 0)
     + (if textLength request < 1000
        then (if resourceRequirements algo = ''low'' then 1 else 0)
        else if textLength request > 5000
        then (if resourceRequirements algo = ''low'' then 2 else 0)
             + (if resourceRequirements algo = ''medium'' then 1 else 0)
        else 0)
     + (if languageComplexity request = Some ''complex''
           \<and> quality algo \<in> {''high'', ''very high''} then 1.5
        else if languageComplexity request = Some ''simple'' \<and> speed algo = ''high'' then 1
        else 0)
     + (case contentDomain request of
          None \<Rightarrow> 0
        | Some d \<Rightarrow> if d \<noteq> [] \<and> ''contextual-understanding'' \<in> set (specialFeatures algo)
                    then 1 else 0)
     + (case specialRequirements request of
          None \<Rightarrow> 0
        | Some reqs \<Rightarrow>
            Num (real (length (filter (\<lambda>req. normalizeRequirement req \<in> set (specialFeatures algo))
                                 reqs))))"

text \<open>A scored algorithm \<^verbatim>\<open>{ name, score, ... }\<close> is the pair of name and score.\<close>

record recommendation_response =
  recommendedAlgorithm :: string
  confidence :: jsnum
  alternativeAlgorithms :: "(string \<times> jsnum) list"

text \<open>The body of the \<^verbatim>\<open>try\<close> block of \<^verbatim>\<open>recommendAlgorithm\<close>. The suggested
  parameters and the explanation text are derived from the recommended name and the
  request afterwards and are not part of the response here. \<^verbatim>\<open>Math.max\<close> is called with
  one argument for each compatible algorithm, at most three by the table.\<close>

definition recommend_body :: "recommendation_request \<Rightarrow> error + recommendation_response" where
  "recommend_body request =
     (let compatibleAlgorithms = filter (\<lambda>algo. taskType request \<in> set (taskTypes algo)) algorithms
      in if length compatibleAlgorithms = 0 then Inl (NoCompatibleAlgorithms (taskType request))
         else (let scoredAlgorithms =
                     sort_desc snd (map (\<lambda>algo. (name algo, algorithmScore request algo))
                                        compatibleAlgorithms);
                   recommended = hd scoredAlgorithms;
                   maxScore = Math_max (map snd scoredAlgorithms);
                   normalizedAlgorithms = map (\<lambda>(n, sc). (n, sc / maxScore)) scoredAlgorithms
               in Inr \<lparr>recommendedAlgorithm = fst recommended,
                        confidence = snd (hd normalizedAlgorithms),
                        alternativeAlgorithms = take 2 (drop 1 normalizedAlgorithms)\<rparr>))"

text \<open>The \<^verbatim>\<open>catch\<close> replaces whatever was thrown inside by one error.\<close>

definition recommendAlgorithm :: "recommendation_request \<Rightarrow> error + recommendation_response" where
  "recommendAlgorithm request =
     (case recommend_body request of
        Inl e \<Rightarrow> Inl RecommendationFailed
      | Inr response \<Rightarrow> Inr response)"

section \<open>Notions of the statements\<close>

text \<open>The label that the openers so far give a sentence, \<open>-1\<close> when none claims it: the
  content of the label array for a sentence that the outer loop has not reached.\<close>

definition claimed_by :: "string list \<Rightarrow> string \<Rightarrow> int" where
  "claimed_by openers s = (case first_similar openers s of None \<Rightarrow> - 1 | Some k \<Rightarrow> int k)"

section \<open>Inputs of the concrete scenarios\<close>

text \<open>The request of the third scenario of the specification.\<close>

definition keyword_speed_request :: recommendation_request where
  "keyword_speed_request =
     \<lparr>taskType = ''keyword_extraction'', textLength = 6000, contentDomain = None,
      languageComplexity = None, priorityFactor = ''speed'', specialRequirements = None\<rparr>"

text \<open>The request of the second scenario of the specification.\<close>

definition data_request :: keyword_request where
  "data_request =
     \<lparr>kw_text = ''data science data analysis data mining'', kw_count = 2,
      kw_method = ''standard_tfidf''\<rparr>"

definition bert_request :: keyword_request where
  "bert_request = \<lparr>kw_text = ''data mining'', kw_count = 1, kw_method = ''bert_based''\<rparr>"

text \<open>A request whose three keywords are spread into \<^verbatim>\<open>Math.max\<close>.\<close>

definition greek_request :: keyword_request where
  "greek_request =
     \<lparr>kw_text = ''alpha beta gamma'', kw_count = 3, kw_method = ''enhanced_tfidf''\<rparr>"

text \<open>A text of one sentence in which the phrase \<open>alpha beta gamma\<close> occurs twice.\<close>

definition phrase_text :: string where
  "phrase_text = ''alpha beta gamma alpha beta gamma''"

text \<open>A sentence of nine words.\<close>

definition fox_sentence :: string where
  "fox_sentence = ''The quick brown fox jumps over the lazy dog.''"

text \<open>A text of five sentences, summarized at length \<open>long\<close>: its sentences, and its
  scored sentences in reading order.\<close>

definition stuck_request :: summarization_request where
  "stuck_request =
     \<lparr>sum_text = ''Cats purr. It is. It is. It is. Cats purr.'', sum_length = ''long'',
      style = ''informative''\<rparr>"

definition stuck_sentences :: "string list" where
  "stuck_sentences = [''Cats purr.'', ''It is.'', ''It is.'', ''It is.'', ''Cats purr.'']"

definition stuck_first :: scored_sentence where
  "stuck_first =
     \<lparr>sentence = ''Cats purr.'', originalIndex = 0, score = Num (91 * ln 3 / 525),
      cluster = 0\<rparr>"

definition stuck_second :: scored_sentence where
  "stuck_second = \<lparr>sentence = ''It is.'', originalIndex = 1, score = 0, cluster = 1\<rparr>"

definition stuck_third :: scored_sentence where
  "stuck_third = \<lparr>sentence = ''It is.'', originalIndex = 2, score = 0, cluster = 1\<rparr>"

definition stuck_fourth :: scored_sentence where
  "stuck_fourth = \<lparr>sentence = ''It is.'', originalIndex = 3, score = 0, cluster = 1\<rparr>"

definition stuck_fifth :: scored_sentence where
  "stuck_fifth =
     \<lparr>sentence = ''Cats purr.'', originalIndex = 4, score = Num (4 * ln 3 / 25),
      cluster = 0\<rparr>"

declare cluster_inner.simps [simp del] cluster_outer.simps [simp del]

section \<open>Arithmetic on finite numbers\<close>

lemma numeral_jsnum: "numeral k = Num (numeral k)"
proof (induction k)
  case One
  show ?case by (simp add: one_jsnum_def)
next
  case (Bit0 k)
  have "(numeral (num.Bit0 k) :: jsnum) = numeral k + numeral k"
    by (rule numeral_Bit0)
  also have "\<dots> = Num (numeral k) + Num (numeral k)"
    by (simp only: Bit0)
  also have "\<dots> = Num (numeral k + numeral k)"
    by (simp add: plus_jsnum_def)
  also have "numeral k + numeral k = (numeral (num.Bit0 k) :: real)"
    by (simp only: numeral_Bit0)
  finally show ?case .
next
  case (Bit1 k)
  have "(numeral (num.Bit1 k) :: jsnum) = numeral k + numeral k + 1"
    by (rule numeral_Bit1)
  also have "\<dots> = Num (numeral k) + Num (numeral k) + Num 1"
    by (simp only: Bit1 one_jsnum_def)
  also have "\<dots> = Num (numeral k + numeral k + 1)"
    by (simp add: plus_jsnum_def)
  also have "numeral k + numeral k + 1 = (numeral (num.Bit1 k) :: real)"
    by (simp only: numeral_Bit1)
  finally show ?case .
qed

text \<open>The rules that evaluate the operators on numbers and on values.\<close>

lemmas js_arith = numeral_jsnum zero_jsnum_def one_jsnum_def plus_jsnum_def minus_jsnum_def
  uminus_jsnum_def times_jsnum_def divide_jsnum_def less_jsnum_def less_eq_jsnum_def
  truthy_num_def js_max_def js_min_def Math_max_def signed_inf_def

lemmas js_record = bump_def js_set_def js_or_def js_add_def get_def get_num_def
  prototype_names_def count_all_def

text \<open>Sorting keeps the elements.\<close>

lemma length_insort_cmp: "length (insort_cmp cmp x xs) = Suc (length xs)"
  by (induction xs) simp_all

lemma length_sort_cmp: "length (sort_cmp cmp xs) = length xs"
  by (induction xs) (simp_all add: sort_cmp_def length_insort_cmp)

lemma length_sort_desc: "length (sort_desc f xs) = length xs"
  by (simp add: sort_desc_def length_sort_cmp)

lemma set_insort_cmp: "set (insort_cmp cmp x xs) = insert x (set xs)"
  by (induction xs) auto

lemma set_sort_cmp: "set (sort_cmp cmp xs) = set xs"
  by (induction xs) (simp_all add: sort_cmp_def set_insort_cmp)

lemma set_sort_desc: "set (sort_desc f xs) = set xs"
  by (simp add: sort_desc_def set_sort_cmp)

section \<open>Splitting on the expression with the doubled backslash\<close>

lemma split_backslash_free:
  "backslash \<notin> set s \<Longrightarrow> split_re m_backslash_s s = [s]"
proof (induction s)
  case Nil
  show ?case by simp
next
  case (Cons c cs)
  from Cons.prems have "c \<noteq> backslash" by auto
  then have m: "m_backslash_s (c # cs) = 0"
    by (simp add: m_backslash_s_def split: list.splits)
  from Cons have ih: "split_re m_backslash_s cs = [cs]" by simp
  show ?case
    by (subst split_re.simps) (simp only: m ih, simp)
qed

lemma lengthFactor_backslash_free:
  "backslash \<notin> set s \<Longrightarrow> lengthFactor s = 0.7"
  by (simp add: lengthFactor_def split_backslash_free)

lemma phraseWeight_backslash_free:
  "backslash \<notin> set phrase \<Longrightarrow>
     phraseWeight phrase n d = to_number n / Num (real d) * Num 1 * 1.5"
  by (simp add: phraseWeight_def split_backslash_free)

section \<open>The phrase weights of the summarizer\<close>

lemma phrase_text_sentences: "tokenizeSentences phrase_text = [phrase_text]"
  unfolding phrase_text_def by code_simp

lemma phrase_text_paragraphs: "paragraphs phrase_text = [phrase_text]"
  unfolding phrase_text_def by code_simp

lemma phrase_text_tokens:
  "tokenizeWords phrase_text = [''alpha'', ''beta'', ''gamma'', ''alpha'', ''beta'', ''gamma'']"
  "uniq (tokenizeWords phrase_text) = [''alpha'', ''beta'', ''gamma'']"
  "filter is_content (tokenizeWords phrase_text)
     = [''alpha'', ''beta'', ''gamma'', ''alpha'', ''beta'', ''gamma'']"
  unfolding phrase_text_def by code_simp+

lemma phrase_text_docs:
  "wordInDocCount [phrase_text]
     = [(''alpha'', Number 1), (''beta'', Number 1), (''gamma'', Number 1)]"
  by (simp add: wordInDocCount_def phrase_text_tokens(2) js_record js_arith)

lemma phrase_text_words:
  "count_all (filter is_content (tokenizeWords phrase_text))
     = [(''alpha'', Number 2), (''beta'', Number 2), (''gamma'', Number 2)]"
  by (simp add: phrase_text_tokens(3) js_record js_arith)

lemma phrase_text_windows:
  "map (\<lambda>i. join '' '' (take 3 (drop i (filter is_content (tokenizeWords phrase_text)))))
       [0 ..< Suc (length (filter is_content (tokenizeWords phrase_text))) - 3]
     = [''alpha beta gamma'', ''beta gamma alpha'', ''gamma alpha beta'', ''alpha beta gamma'']"
  unfolding phrase_text_def by code_simp

lemma phrase_text_phrases:
  "extractPhrases phrase_text 3
     = [(''alpha beta gamma'', Number 2), (''beta gamma alpha'', Number 1),
        (''gamma alpha beta'', Number 1)]"
  unfolding extractPhrases_def Let_def phrase_text_windows
  by (simp add: js_record js_arith)

lemma phrase_text_tfidf:
  "calculateTFIDF (calculateTF phrase_text) (calculateIDFWithSmoothing [phrase_text])
     = [(''alpha'', Num (ln 2 / 3)), (''beta'', Num (ln 2 / 3)), (''gamma'', Num (ln 2 / 3))]"
  unfolding calculateTFIDF_def calculateTF_def calculateIDFWithSmoothing_def Let_def
    phrase_text_docs phrase_text_words
  by (simp add: phrase_text_tokens(1) js_record js_arith)

lemma phrase_text_keywordScores:
  "summaryKeywordScores phrase_text (tokenizeSentences phrase_text)
     = [(''alpha'', Num (ln 2 / 3)), (''beta'', Num (ln 2 / 3)), (''gamma'', Num (ln 2 / 3)),
        (''alpha beta gamma'', 3)]"
proof -
  have bs: "backslash \<notin> set ''alpha beta gamma''"
    by (simp add: backslash_def)
  show ?thesis
    unfolding summaryKeywordScores_def phrase_text_sentences summary_documents_def
      phrase_text_paragraphs Let_def phrase_text_tfidf phrase_text_phrases
    by (simp add: keywordScores_def phraseWeight_backslash_free [OF bs] phrase_text_tfidf
          js_record js_arith)
qed

text \<open>
  Claim C3. A phrase of three words that occurs more than once is to receive the weight
  \<open>(count / docCount) * (1 + (wordCount - 1) * 0.25) * 1.5\<close> with \<open>wordCount = 3\<close>. In the
  text \<open>alpha beta gamma alpha beta gamma\<close>, one document, the phrase
  \<open>alpha beta gamma\<close> occurs twice, so the weight would be \<open>2 * 1.5 * 1.5 = 4.5\<close>. The
  source stores \<open>2 * 1 * 1.5 = 3\<close>: it counts the words of the phrase by splitting on a
  backslash followed by \<open>s\<close>, which a phrase never holds, and so counts one word.
\<close>

theorem phrase_weight_ignores_word_count:
  "map_of (summaryKeywordScores phrase_text (tokenizeSentences phrase_text)) ''alpha beta gamma''
     = Some 3
   \<and> length (split_re m_backslash_s ''alpha beta gamma'') = 1
   \<and> length (split_re m_blank ''alpha beta gamma'') = 3"
proof -
  have "length (split_re m_backslash_s ''alpha beta gamma'') = 1"
    by code_simp
  moreover have "length (split_re m_blank ''alpha beta gamma'') = 3"
    by code_simp
  ultimately show ?thesis
    by (simp add: phrase_text_keywordScores)
qed

section \<open>The length penalty of the summarizer\<close>

text \<open>
  Claim C4. A sentence of 5 to 40 tokens is to keep its score in the length step. The
  sentence \<open>The quick brown fox jumps over the lazy dog.\<close> has nine tokens, and the
  source multiplies its score by 0.7: it measures the length by splitting on a backslash
  followed by \<open>s\<close>, so that a sentence without that pair has length one.
\<close>

theorem length_penalty_on_nine_tokens:
  "lengthFactor fox_sentence = 0.7
   \<and> length (filter (\<lambda>w. length w > 0) (split_re m_spaces fox_sentence)) = 9"
proof -
  have "backslash \<notin> set fox_sentence"
    by (simp add: fox_sentence_def backslash_def)
  then have "lengthFactor fox_sentence = 0.7"
    by (rule lengthFactor_backslash_free)
  moreover have "length (filter (\<lambda>w. length w > 0) (split_re m_spaces fox_sentence)) = 9"
    unfolding fox_sentence_def by code_simp
  ultimately show ?thesis by simp
qed

section \<open>The inverse document frequency\<close>

lemma constructor_tokens:
  "uniq (filter is_content (tokenizeWords ''constructor'')) = [''constructor'']"
  "tokenizeWords ''constructor'' = [''constructor'']"
  by code_simp+

lemma constructor_docs: "wordDocs [''constructor''] = [(''constructor'', Text)]"
  by (simp add: wordDocs_def constructor_tokens(1) js_record js_arith)

text \<open>
  Claim C5. Every value of the record that \<open>calculateIDF\<close> returns is to be
  \<open>log10((D+1)/(df+1)) + 1\<close>, which is at least 1. For the one document \<open>constructor\<close>
  the first read of the count of that word finds the inherited property of that name, the
  count becomes a string, and the value stored for the word is NaN, which is not at least
  1; \<open>D = df = 1\<close> there, for which the formula gives 1.
\<close>

theorem calculateIDF_of_inherited_name:
  "calculateIDF [''constructor''] = [(''constructor'', NaN)] \<and> \<not> 1 \<le> (NaN :: jsnum)"
  by (simp add: calculateIDF_def constructor_docs js_record js_arith)

text \<open>The value reaches the caller: the keyword of the text \<open>constructor\<close> has the score
  NaN, whatever the number of arguments that a call may take.\<close>

lemma constructor_text:
  "trim ''constructor'' \<noteq> []"
  "paragraphs ''constructor'' = [''constructor'']"
  "tokenizeSentences ''constructor'' = [''constructor'']"
  "filter is_content (tokenizeWords ''constructor'') = [''constructor'']"
  "length (tokenizeWords ''constructor'') = 1"
  by code_simp+

lemma constructor_keywords:
  "extractKeywords argLimit
     \<lparr>kw_text = ''constructor'', kw_count = 1, kw_method = ''standard_tfidf''\<rparr>
     = Inr \<lparr>resp_keywords = [(''constructor'', NaN)],
            resp_method = ''enhanced_standard_tfidf''\<rparr>"
proof -
  have "extractWithStandardTFIDF ''constructor'' [''constructor''] 1 = [(''constructor'', NaN)]"
    unfolding extractWithStandardTFIDF_def calculateTF_def calculateIDF_def Let_def
      constructor_docs constructor_text(4,5)
    by (simp add: calculateTFIDF_def sort_desc_def sort_cmp_def kw_score_def js_record js_arith)
  then show ?thesis
    unfolding extractKeywords_def enhancedExtractKeywords_def keyword_documents_def
    by (simp add: constructor_text(1,2,3) Let_def)
qed

section \<open>The keyword extractor on the second scenario\<close>

lemma data_sentences:
  "tokenizeSentences (kw_text data_request) = [kw_text data_request]"
  unfolding data_request_def by code_simp

lemma data_paragraphs: "paragraphs (kw_text data_request) = [kw_text data_request]"
  unfolding data_request_def by code_simp

lemma data_tokens:
  "filter is_content (tokenizeWords (kw_text data_request))
     = [''data'', ''science'', ''data'', ''analysis'', ''data'', ''mining'']"
  "uniq (filter is_content (tokenizeWords (kw_text data_request)))
     = [''data'', ''science'', ''analysis'', ''mining'']"
  "length (tokenizeWords (kw_text data_request)) = 6"
  unfolding data_request_def by code_simp+

lemma data_tf:
  "calculateTF (kw_text data_request)
     = [(''data'', 1 / 2), (''science'', 1 / 6), (''analysis'', 1 / 6), (''mining'', 1 / 6)]"
  unfolding calculateTF_def Let_def data_tokens
  by (simp add: js_record js_arith)

lemma data_idf:
  "calculateIDF [kw_text data_request]
     = [(''data'', 1), (''science'', 1), (''analysis'', 1), (''mining'', 1)]"
  unfolding calculateIDF_def wordDocs_def Let_def
  by (simp add: data_tokens js_record js_arith)

lemma data_not_blank: "trim (kw_text data_request) \<noteq> []"
  unfolding data_request_def by code_simp

lemma data_standard:
  "extractWithStandardTFIDF (kw_text data_request) [kw_text data_request] 2
     = [(''data'', 1 / 2), (''science'', 1 / 6)]"
  unfolding extractWithStandardTFIDF_def Let_def data_tf data_idf
  by (simp add: calculateTFIDF_def sort_desc_def sort_cmp_def kw_score_def js_record js_arith)

text \<open>
  Claim C2. For every method the scores are to be divided by the maximum, so that the
  first score is 1. For the text \<open>data science data analysis data mining\<close>, count 2 and
  the method \<open>standard_tfidf\<close>, the source returns the raw products of term frequency and
  inverse document frequency: \<open>data\<close> with score \<open>1/2\<close>, then \<open>science\<close> with \<open>1/6\<close>. The
  two other methods divide by the maximum (\<^verbatim>\<open>maxScore\<close> in \<open>extractWithEnhancedTFIDF\<close> and
  \<open>extractWithSimulatedBERT\<close>); this one returns what \<^verbatim>\<open>extractWithStandardTFIDF\<close> gives,
  whatever the number of arguments that a call may take.
\<close>

theorem standard_tfidf_scores_not_normalized:
  "extractKeywords argLimit data_request
     = Inr \<lparr>resp_keywords = [(''data'', 1 / 2), (''science'', 1 / 6)],
            resp_method = ''enhanced_standard_tfidf''\<rparr>"
proof -
  have "kw_count data_request = 2" "kw_method data_request = ''standard_tfidf''"
    by (simp_all add: data_request_def)
  then show ?thesis
    unfolding extractKeywords_def enhancedExtractKeywords_def keyword_documents_def
    by (simp add: data_not_blank data_paragraphs data_sentences data_standard Let_def)
qed

section \<open>The method field of the keyword response\<close>

text \<open>A list that is not longer than the number of arguments a call takes is spread
  without an error; the two methods that spread their keywords return a list when the
  requested count is within that number.\<close>

lemma Math_max_spread_within:
  "length xs \<le> argLimit \<Longrightarrow> Math_max_spread argLimit xs = Inr (Math_max xs)"
  by (simp add: Math_max_spread_def)

lemma length_enhancedFinalKeywords: "length (enhancedFinalKeywords txt documents n) \<le> n"
  by (simp add: enhancedFinalKeywords_def Let_def)

lemma enhanced_tfidf_within:
  assumes "n \<le> argLimit"
  shows "\<exists>ks. extractWithEnhancedTFIDF argLimit txt documents n = Inr ks"
proof -
  have "length (map kw_score (enhancedFinalKeywords txt documents n)) \<le> argLimit"
    using length_enhancedFinalKeywords [of "txt" documents n] assms by simp
  then show ?thesis
    by (simp add: extractWithEnhancedTFIDF_def Let_def Math_max_spread_within)
qed

lemma length_dedupe:
  "length uniqueKeywords < n \<Longrightarrow> length (dedupe n kws uniqueKeywords seen) \<le> n"
  by (induction n kws uniqueKeywords seen rule: dedupe.induct) auto

lemma ceil_times_le: "ceil_times n (0.8) \<le> n"
proof -
  have "real n * 0.8 \<le> real_of_int (int n)" by simp
  then have "\<lceil>real n * 0.8\<rceil> \<le> int n" by (simp only: ceiling_le_iff)
  then show ?thesis by (simp add: ceil_times_def)
qed

lemma simulated_bert_within:
  assumes "0 < n" and "n \<le> argLimit"
  shows "\<exists>ks. extractWithSimulatedBERT argLimit txt documents n = Inr ks"
proof -
  from assms(2) have "ceil_times n (0.8) \<le> argLimit"
    using ceil_times_le [of n] by simp
  then obtain enhanced
    where e: "extractWithEnhancedTFIDF argLimit txt documents (ceil_times n (0.8)) = Inr enhanced"
    using enhanced_tfidf_within by blast
  have "length (map kw_score (dedupe n kws [] [])) \<le> argLimit" for kws
    using length_dedupe [of "[]" n kws "[]"] assms by simp
  then show ?thesis
    unfolding extractWithSimulatedBERT_def Let_def e
    by (simp add: Math_max_spread_within)
qed

lemma extractKeywords_within:
  assumes "trim (kw_text request) \<noteq> []" and "0 < kw_count request"
    and "kw_count request \<le> argLimit"
  shows "\<exists>response. extractKeywords argLimit request = Inr response"
proof -
  obtain a b where
    "extractWithEnhancedTFIDF argLimit (kw_text request) (keyword_documents (kw_text request))
       (kw_count request) = Inr a"
    "extractWithSimulatedBERT argLimit (kw_text request) (keyword_documents (kw_text request))
       (kw_count request) = Inr b"
    using enhanced_tfidf_within [OF assms(3)] simulated_bert_within [OF assms(2,3)] by metis
  with assms(1) show ?thesis
    by (simp add: extractKeywords_def enhancedExtractKeywords_def Let_def)
qed

text \<open>
  Claim C10. Every successful call of \<open>extractKeywords\<close> answers with the method field
  \<open>enhanced_\<close> followed by the requested method name, which is never the requested name
  itself.
\<close>

theorem response_method_prefixed:
  "extractKeywords argLimit request = Inr response \<Longrightarrow>
     resp_method response = ''enhanced_'' @ kw_method request
     \<and> resp_method response \<noteq> kw_method request"
  by (auto simp: extractKeywords_def enhancedExtractKeywords_def Let_def
      split: if_splits sum.splits)

theorem response_method_prefixed_witness:
  "extractKeywords 65535 bert_request = Inr (projr (extractKeywords 65535 bert_request))
   \<and> resp_method (projr (extractKeywords 65535 bert_request)) = ''enhanced_bert_based''
   \<and> resp_method (projr (extractKeywords 65535 bert_request)) \<noteq> ''bert_based''"
proof -
  have "trim (kw_text bert_request) \<noteq> []"
    unfolding bert_request_def by code_simp
  moreover have "0 < kw_count bert_request" "kw_count bert_request \<le> 65535"
    by (simp_all add: bert_request_def)
  ultimately obtain response where "extractKeywords 65535 bert_request = Inr response"
    using extractKeywords_within by blast
  then have ok: "extractKeywords 65535 bert_request
                   = Inr (projr (extractKeywords 65535 bert_request))"
    by simp
  from response_method_prefixed [OF ok] show ?thesis
    using ok by (simp add: bert_request_def)
qed

section \<open>Cosine similarity\<close>

text \<open>
  Claim C6. \<open>cosineSimilarity a b\<close> and \<open>cosineSimilarity b a\<close> are to be equal for all
  vectors, and \<open>cosineSimilarity v v\<close> is to be 1 for a vector that is not of magnitude
  zero. For the vector whose one component is named \<open>constructor\<close> and the vector whose
  one component is named \<open>x\<close>, both of magnitude 1, the guard \<^verbatim>\<open>if (vectorB[key])\<close> reads
  an inherited property in one order and nothing in the other: the result is NaN one way
  and 0 the other way. The vector of word counts that \<open>calculateSentenceSimilarity\<close>
  builds for the sentence \<open>constructor\<close> holds a string for that word, and its similarity
  to itself is NaN.
\<close>

theorem cosineSimilarity_on_inherited_name:
  "cosineSimilarity [(''constructor'', Number 1)] [(''x'', Number 1)] = NaN
   \<and> cosineSimilarity [(''x'', Number 1)] [(''constructor'', Number 1)] = 0
   \<and> wordVector ''constructor'' = [(''constructor'', Text)]
   \<and> cosineSimilarity (wordVector ''constructor'') (wordVector ''constructor'') = NaN"
  unfolding wordVector_def constructor_tokens(2)
  by (simp add: cosineSimilarity_def dotProduct_def sumSquares_def js_record js_arith)

section \<open>The sentence clusterer\<close>

lemma length_cluster_inner:
  "length (cluster_inner ss i cc j cl) = length cl"
  by (induction ss i cc j cl rule: cluster_inner.induct)
     (subst cluster_inner.simps, simp)

lemma nth_cluster_inner:
  "t < length cl \<Longrightarrow> length cl = length ss \<Longrightarrow>
     cluster_inner ss i cc j cl ! t
       = (if j \<le> t \<and> cl ! t = - 1 \<and> calculateSentenceSimilarity (ss ! i) (ss ! t) > 0.5
          then cc else cl ! t)"
proof (induction ss i cc j cl rule: cluster_inner.induct)
  case (1 ss i cc j cl)
  show ?case
  proof (cases "j < length ss")
    case False
    with 1 show ?thesis by (subst cluster_inner.simps) simp
  next
    case True
    let ?cl = "if cl ! j = - 1 \<and> calculateSentenceSimilarity (ss ! i) (ss ! j) > 0.5
               then cl[j := cc] else cl"
    have len: "length ?cl = length ss" "t < length ?cl" using 1 by auto
    have step: "cluster_inner ss i cc j cl = cluster_inner ss i cc (Suc j) ?cl"
      using True by (subst cluster_inner.simps) simp
    have "cluster_inner ss i cc (Suc j) ?cl ! t
           = (if Suc j \<le> t \<and> ?cl ! t = - 1 \<and> calculateSentenceSimilarity (ss ! i) (ss ! t) > 0.5
              then cc else ?cl ! t)"
      using "1.IH" [OF True len(2) len(1)] .
    also have "\<dots> = (if j \<le> t \<and> cl ! t = - 1 \<and> calculateSentenceSimilarity (ss ! i) (ss ! t) > 0.5
          then cc else cl ! t)"
    proof (cases "t = j")
      case True
      with 1 show ?thesis by simp
    next
      case False
      then have "?cl ! t = cl ! t" by simp
      with False show ?thesis by (simp add: Suc_le_eq le_less)
    qed
    finally show ?thesis unfolding step .
  qed
qed


lemma first_similar_append:
  "first_similar (ops @ [opener]) s
     = (case first_similar ops s of
          Some k \<Rightarrow> Some k
        | None \<Rightarrow> if calculateSentenceSimilarity opener s > 0.5 then Some (length ops) else None)"
  by (induction ops) (auto split: option.splits)

lemma claimed_by_append:
  "claimed_by (ops @ [opener]) s
     = (if claimed_by ops s = - 1 \<and> calculateSentenceSimilarity opener s > 0.5
        then int (length ops) else claimed_by ops s)"
  by (simp add: claimed_by_def first_similar_append split: option.splits)

lemma cluster_outer_refines:
  assumes "i \<le> length ss" and "length cl = length ss" and "cc = int (length ops)"
    and "\<And>t. i \<le> t \<Longrightarrow> t < length ss \<Longrightarrow> cl ! t = claimed_by ops (ss ! t)"
  shows "cluster_outer ss i cc cl = take i cl @ map int (label_by_opener ops (drop i ss))"
  using assms
proof (induction ss i cc cl arbitrary: ops rule: cluster_outer.induct)
  case (1 ss i cc cl)
  show ?case
  proof (cases "i < length ss")
    case False
    with 1 show ?thesis by (subst cluster_outer.simps) simp
  next
    case True
    have here: "cl ! i = claimed_by ops (ss ! i)"
      using "1.prems"(4) [of i] True by simp
    have drop: "drop i ss = ss ! i # drop (Suc i) ss"
      using True by (simp add: Cons_nth_drop_Suc)
    have il: "i < length cl" using True "1.prems" by simp
    show ?thesis
    proof (cases "cl ! i = - 1")
      case opens: True
      let ?cl = "cluster_inner ss i cc (Suc i) (cl[i := cc])"
      have none: "first_similar ops (ss ! i) = None"
        using opens here by (simp add: claimed_by_def split: option.splits)
      have len: "length ?cl = length ss"
        using "1.prems" by (simp add: length_cluster_inner)
      have nth: "?cl ! t = (if Suc i \<le> t \<and> cl[i := cc] ! t = - 1
                              \<and> calculateSentenceSimilarity (ss ! i) (ss ! t) > 0.5
                            then cc else cl[i := cc] ! t)" if "t < length ss" for t
        using that "1.prems" by (intro nth_cluster_inner) simp_all
      have rest: "?cl ! t = claimed_by (ops @ [ss ! i]) (ss ! t)" if "Suc i \<le> t" "t < length ss" for t
        using that nth [of t] "1.prems"(3) "1.prems"(4) [of t]
        by (simp add: claimed_by_append)
      have pre: "take (Suc i) ?cl = take i cl @ [cc]"
      proof -
        have "?cl ! t = cl ! t" if "t < i" for t
          using that nth [of t] True by simp
        then have "take i ?cl = take i cl"
          using len il True by (intro nth_take_lemma) simp_all
        moreover have "?cl ! i = cc"
          using nth [of i] True il by simp
        ultimately show ?thesis
          using len True by (simp add: take_Suc_conv_app_nth)
      qed
      have "cluster_outer ss i cc cl = cluster_outer ss (Suc i) (cc + 1) ?cl"
        using True opens by (subst cluster_outer.simps) simp
      also have "\<dots> = take (Suc i) ?cl @ map int (label_by_opener (ops @ [ss ! i]) (drop (Suc i) ss))"
        using True opens len rest "1.prems"(3)
        by (intro "1.IH"(1)) simp_all
      finally show ?thesis
        using pre none "1.prems"(3) by (simp add: drop)
    next
      case joined: False
      then obtain k where some: "first_similar ops (ss ! i) = Some k" and k: "cl ! i = int k"
        using here by (auto simp: claimed_by_def split: option.splits)
      have "cluster_outer ss i cc cl = cluster_outer ss (Suc i) cc cl"
        using True joined by (subst cluster_outer.simps) simp
      also have "\<dots> = take (Suc i) cl @ map int (label_by_opener ops (drop (Suc i) ss))"
        using True joined "1.prems" by (intro "1.IH"(2)) simp_all
      finally show ?thesis
        using some k il by (simp add: drop take_Suc_conv_app_nth)
    qed
  qed
qed

lemma clusterSimilarSentences_refines:
  "clusterSimilarSentences ss = map int (cluster_by_opener ss)"
proof -
  have "cluster_outer ss 0 0 (replicate (length ss) (- 1))
          = take 0 (replicate (length ss) (- 1)) @ map int (label_by_opener [] (drop 0 ss))"
    by (rule cluster_outer_refines) (simp_all add: claimed_by_def)
  then show ?thesis
    by (simp add: clusterSimilarSentences_def cluster_by_opener_def)
qed



text \<open>The fourth scenario of the specification: the first two sentences share a
  cluster, the third opens its own.\<close>

lemma cats_tokens:
  "tokenizeWords ''I love cats.'' = [''i'', ''love'', ''cats'']"
  "tokenizeWords ''I love cats very much.'' = [''i'', ''love'', ''cats'', ''very'', ''much'']"
  "tokenizeWords ''The stock market fell.'' = [''the'', ''stock'', ''market'', ''fell'']"
  by code_simp+

lemma cats_vectors:
  "wordVector ''I love cats.'' = [(''i'', Number 1), (''love'', Number 1), (''cats'', Number 1)]"
  "wordVector ''I love cats very much.''
     = [(''i'', Number 1), (''love'', Number 1), (''cats'', Number 1), (''very'', Number 1),
        (''much'', Number 1)]"
  "wordVector ''The stock market fell.''
     = [(''the'', Number 1), (''stock'', Number 1), (''market'', Number 1), (''fell'', Number 1)]"
  unfolding wordVector_def cats_tokens
  by (simp_all add: js_record js_arith)

lemma cats_similarity:
  "calculateSentenceSimilarity ''I love cats.'' ''I love cats very much.'' > 0.5"
  "\<not> calculateSentenceSimilarity ''I love cats.'' ''The stock market fell.'' > 0.5"
proof -
  have "sqrt 15 < sqrt 36"
    by (rule real_sqrt_less_mono) simp
  also have "sqrt 36 = 6"
    by (rule real_sqrt_unique) simp_all
  finally have "sqrt (3 * 5) < 6"
    by simp
  then have "sqrt 3 * sqrt 5 < 6"
    by (simp only: real_sqrt_mult)
  moreover have "0 < sqrt 3 * sqrt 5" by simp
  ultimately have half: "1 / 2 < 3 / (sqrt 3 * sqrt 5)"
    by (simp add: field_simps)
  have "calculateSentenceSimilarity ''I love cats.'' ''I love cats very much.''
          = Num (3 / (sqrt 3 * sqrt 5))"
    unfolding calculateSentenceSimilarity_def cats_vectors
    by (simp add: cosineSimilarity_def dotProduct_def sumSquares_def js_record js_arith)
  with half show "calculateSentenceSimilarity ''I love cats.'' ''I love cats very much.'' > 0.5"
    by (simp add: js_arith)
  have "calculateSentenceSimilarity ''I love cats.'' ''The stock market fell.'' = 0"
    unfolding calculateSentenceSimilarity_def cats_vectors
    by (simp add: cosineSimilarity_def dotProduct_def sumSquares_def js_record js_arith)
  then show "\<not> calculateSentenceSimilarity ''I love cats.'' ''The stock market fell.'' > 0.5"
    by (simp add: js_arith)
qed

lemma cats_clusters:
  "clusterSimilarSentences [''I love cats.'', ''I love cats very much.'', ''The stock market fell.'']
     = [0, 0, 1]"
  using cats_similarity
  by (simp add: clusterSimilarSentences_refines cluster_by_opener_def)


section \<open>The sentence selection of the summarizer\<close>

lemma stuck_tokenize: "tokenizeSentences (sum_text stuck_request) = stuck_sentences"
  unfolding stuck_request_def stuck_sentences_def by code_simp

lemma stuck_paragraphs: "length (paragraphs (sum_text stuck_request)) = 1"
  unfolding stuck_request_def by code_simp

lemma stuck_sentence_words:
  "tokenizeWords ''Cats purr.'' = [''cats'', ''purr'']"
  "tokenizeWords ''It is.'' = [''it'', ''is'']"
  "uniq (tokenizeWords ''Cats purr.'') = [''cats'', ''purr'']"
  "uniq (tokenizeWords ''It is.'') = [''it'', ''is'']"
  by code_simp+

lemma stuck_vectors:
  "wordVector ''Cats purr.'' = [(''cats'', Number 1), (''purr'', Number 1)]"
  "wordVector ''It is.'' = [(''it'', Number 1), (''is'', Number 1)]"
  unfolding wordVector_def stuck_sentence_words(1,2)
  by (simp_all add: js_record js_arith)

lemma stuck_similarity:
  "calculateSentenceSimilarity ''Cats purr.'' ''Cats purr.'' = 1"
  "calculateSentenceSimilarity ''Cats purr.'' ''It is.'' = 0"
  "calculateSentenceSimilarity ''It is.'' ''It is.'' = 1"
  unfolding calculateSentenceSimilarity_def stuck_vectors
  by (simp_all add: cosineSimilarity_def dotProduct_def sumSquares_def js_record js_arith)

lemma stuck_clusters: "clusterSimilarSentences stuck_sentences = [0, 1, 1, 1, 0]"
  by (simp add: clusterSimilarSentences_refines cluster_by_opener_def stuck_sentences_def
        stuck_similarity js_arith)

lemma stuck_docs:
  "wordInDocCount stuck_sentences
     = [(''cats'', Number 2), (''purr'', Number 2), (''it'', Number 3), (''is'', Number 3)]"
  unfolding stuck_sentences_def wordInDocCount_def
  by (simp add: stuck_sentence_words(3,4) js_record js_arith)

lemma stuck_tokens:
  "length (tokenizeWords (sum_text stuck_request)) = 10"
  "filter is_content (tokenizeWords (sum_text stuck_request))
     = [''cats'', ''purr'', ''cats'', ''purr'']"
  unfolding stuck_request_def by code_simp+

lemma stuck_words:
  "count_all (filter is_content (tokenizeWords (sum_text stuck_request)))
     = [(''cats'', Number 2), (''purr'', Number 2)]"
  unfolding stuck_tokens by (simp add: js_record js_arith)

lemma stuck_windows:
  "map (\<lambda>i. join '' '' (take 3 (drop i (filter is_content
                                            (tokenizeWords (sum_text stuck_request))))))
       [0 ..< Suc (length (filter is_content (tokenizeWords (sum_text stuck_request)))) - 3]
     = [''cats purr cats'', ''purr cats purr'']"
  unfolding stuck_request_def by code_simp

lemma stuck_phrases:
  "extractPhrases (sum_text stuck_request) 3
     = [(''cats purr cats'', Number 1), (''purr cats purr'', Number 1)]"
  unfolding extractPhrases_def Let_def stuck_windows
  by (simp add: js_record js_arith)

lemma stuck_tfidf:
  "calculateTFIDF (calculateTF (sum_text stuck_request)) (calculateIDFWithSmoothing stuck_sentences)
     = [(''cats'', Num (ln 3 / 5)), (''purr'', Num (ln 3 / 5))]"
  unfolding calculateTFIDF_def calculateTF_def calculateIDFWithSmoothing_def Let_def
    stuck_docs stuck_words stuck_tokens
  by (simp add: stuck_sentences_def js_record js_arith)

lemma stuck_keywordScores:
  "summaryKeywordScores (sum_text stuck_request) stuck_sentences
     = [(''cats'', Num (ln 3 / 5)), (''purr'', Num (ln 3 / 5))]"
  unfolding summaryKeywordScores_def summary_documents_def Let_def
  by (simp add: stuck_paragraphs stuck_phrases stuck_tfidf keywordScores_def js_arith)

lemma stuck_initial:
  "scoreSentences stuck_sentences [(''cats'', Num (ln 3 / 5)), (''purr'', Num (ln 3 / 5))]
     = [Num (4 * ln 3 / 21), 0, 0, 0, Num (4 * ln 3 / 21)]"
  by (simp add: scoreSentences_def stuck_sentences_def stuck_sentence_words(1,2) js_record
        js_arith)

lemma stuck_tops:
  "topPhrases (extractPhrases (sum_text stuck_request) 3) = [''cats purr cats'', ''purr cats purr'']"
  by (simp add: stuck_phrases topPhrases_def sort_desc_def sort_cmp_def js_arith)

lemma stuck_boost:
  "phraseBoost [''cats purr cats'', ''purr cats purr''] ''Cats purr.'' = 1"
  "phraseBoost [''cats purr cats'', ''purr cats purr''] ''It is.'' = 1"
proof -
  have "\<not> includes_str ''Cats purr.'' ''cats purr cats''" "\<not> includes_str ''Cats purr.'' ''purr cats purr''"
    "\<not> includes_str ''It is.'' ''cats purr cats''" "\<not> includes_str ''It is.'' ''purr cats purr''"
    by code_simp+
  then show "phraseBoost [''cats purr cats'', ''purr cats purr''] ''Cats purr.'' = 1"
  "phraseBoost [''cats purr cats'', ''purr cats purr''] ''It is.'' = 1"
    by (simp_all add: phraseBoost_def js_arith)
qed

lemma stuck_lengthFactor:
  "lengthFactor ''Cats purr.'' = 0.7" "lengthFactor ''It is.'' = 0.7"
  by (rule lengthFactor_backslash_free, simp add: backslash_def)+

lemma stuck_position:
  "getEnhancedPositionWeight 0 5 = 1.3" "getEnhancedPositionWeight (Suc 0) 5 = 1"
  "getEnhancedPositionWeight 2 5 = 0.9" "getEnhancedPositionWeight 3 5 = 1"
  "getEnhancedPositionWeight 4 5 = 1.2"
  by (simp_all add: getEnhancedPositionWeight_def js_arith)

lemma upt5: "[0 ..< 5] = [0, 1, 2, 3, 4]"
  by (simp add: upt_rec)

lemma stuck_length: "length stuck_sentences = 5"
  by (simp add: stuck_sentences_def)

lemma stuck_nth:
  "stuck_sentences ! 0 = ''Cats purr.''" "stuck_sentences ! Suc 0 = ''It is.''"
  "stuck_sentences ! 2 = ''It is.''" "stuck_sentences ! 3 = ''It is.''"
  "stuck_sentences ! 4 = ''Cats purr.''"
  by (simp_all add: stuck_sentences_def)

lemma stuck_scores:
  "sentenceScores (sum_text stuck_request) stuck_sentences
     = [Num (91 * ln 3 / 525), 0, 0, 0, Num (4 * ln 3 / 25)]"
  unfolding sentenceScores_def stuck_keywordScores stuck_initial stuck_tops Let_def
    stuck_length upt5
  by (simp add: stuck_nth stuck_position stuck_lengthFactor stuck_boost js_arith)

lemma backfill_stuck:
  assumes "length selected < num" and "length selected < length ranked"
    and "ranked ! length selected \<in> set selected"
  shows "backfill num ranked selected = None"
proof (cases "backfill num ranked selected")
  case None
  then show ?thesis .
next
  case (Some y)
  have "\<not> (length selected < num \<and> length selected < length ranked
           \<and> ranked ! length selected \<in> set selected)"
  proof (rule backfill.raw_induct
      [where P = "\<lambda>num ranked selected y.
                    \<not> (length selected < num \<and> length selected < length ranked
                       \<and> ranked ! length selected \<in> set selected)", OF _ Some])
    fix bf :: "nat \<Rightarrow> scored_sentence list \<Rightarrow> scored_sentence list
                 \<Rightarrow> scored_sentence list option"
      and n r s z
    assume IH: "\<And>n r s z. bf n r s = Some z \<Longrightarrow>
                  \<not> (length s < n \<and> length s < length r \<and> r ! length s \<in> set s)"
      and body: "(if length s < n \<and> length s < length r
                  then let nextSentence = r ! length s
                       in if nextSentence \<notin> set s then bf n r (s @ [nextSentence])
                          else bf n r s
                  else Some s) = Some z"
    show "\<not> (length s < n \<and> length s < length r \<and> r ! length s \<in> set s)"
    proof
      assume stuck: "length s < n \<and> length s < length r \<and> r ! length s \<in> set s"
      with body have "bf n r s = Some z"
        by (simp add: Let_def)
      from IH [OF this] stuck show False by simp
    qed
  qed
  with assms show ?thesis by simp
qed

lemmas stuck_defs = stuck_first_def stuck_second_def stuck_third_def stuck_fourth_def stuck_fifth_def

lemma stuck_scoredSentences:
  "scoredSentences (sum_text stuck_request) stuck_sentences
     = [stuck_first, stuck_second, stuck_third, stuck_fourth, stuck_fifth]"
  unfolding scoredSentences_def stuck_scores stuck_clusters Let_def stuck_length upt5
  by (simp add: stuck_defs stuck_sentences_def)

lemma ln3_bounds: "0 < ln (3::real)" "ln (3::real) \<le> 2"
proof -
  show "0 < ln (3::real)" by simp
  have "ln (3::real) \<le> 3 - 1" by (rule ln_le_minus_one) simp
  then show "ln (3::real) \<le> 2" by simp
qed

lemma stuck_ranked:
  "rankedSentences (scoredSentences (sum_text stuck_request) stuck_sentences)
     = [stuck_first, stuck_fifth, stuck_second, stuck_third, stuck_fourth]"
  using ln3_bounds
  unfolding stuck_scoredSentences rankedSentences_def sort_desc_def sort_cmp_def
  by (simp add: stuck_defs js_arith)

lemma stuck_selected:
  "select_diverse 3 [stuck_first, stuck_fifth, stuck_second, stuck_third, stuck_fourth] [] {}
     = [stuck_first, stuck_second]"
  using ln3_bounds
  by (simp add: stuck_defs js_arith)

lemma stuck_num: "numSentences (sum_length stuck_request) stuck_sentences = 3"
proof -
  have "\<lceil>(5::real) * 0.45\<rceil> = 3" by (simp add: ceiling_eq_iff)
  then show ?thesis
    by (simp add: numSentences_def lengthRatio_def stuck_request_def stuck_length)
qed

text \<open>When the selection returns, it returns the target number of sentences, in reading
  order.\<close>

lemma length_select_diverse:
  "length selected \<le> num \<Longrightarrow> length (select_diverse num ranked selected cls) \<le> num"
  by (induction ranked arbitrary: selected cls) (auto simp: not_le)

lemma select_diverse_bounded:
  "length (select_diverse num ranked selected cls) \<le> length selected + length ranked"
proof (induction ranked arbitrary: selected cls)
  case Nil
  show ?case by simp
next
  case (Cons a ranked)
  from Cons [of selected cls] Cons [of "selected @ [a]" "insert (cluster a) cls"]
  show ?case by auto
qed

lemma backfill_count:
  assumes "backfill num ranked selected = Some result"
    and "length selected \<le> num" and "length selected \<le> length ranked"
  shows "length result = min num (length ranked)"
proof -
  have "length selected \<le> num \<longrightarrow> length selected \<le> length ranked
          \<longrightarrow> length result = min num (length ranked)"
  proof (rule backfill.raw_induct
      [where P = "\<lambda>num ranked selected result.
                    length selected \<le> num \<longrightarrow> length selected \<le> length ranked
                      \<longrightarrow> length result = min num (length ranked)", OF _ assms(1)])
    fix bf :: "nat \<Rightarrow> scored_sentence list \<Rightarrow> scored_sentence list
                 \<Rightarrow> scored_sentence list option"
      and n r s z
    assume IH: "\<And>n r s z. bf n r s = Some z \<Longrightarrow>
                  length s \<le> n \<longrightarrow> length s \<le> length r \<longrightarrow> length z = min n (length r)"
      and body: "(if length s < n \<and> length s < length r
                  then let nextSentence = r ! length s
                       in if nextSentence \<notin> set s then bf n r (s @ [nextSentence])
                          else bf n r s
                  else Some s) = Some z"
    show "length s \<le> n \<longrightarrow> length s \<le> length r \<longrightarrow> length z = min n (length r)"
    proof (intro impI)
      assume le: "length s \<le> n" "length s \<le> length r"
      show "length z = min n (length r)"
      proof (cases "length s < n \<and> length s < length r")
        case False
        with body le show ?thesis by auto
      next
        case True
        show ?thesis
        proof (cases "r ! length s \<in> set s")
          case True
          with \<open>length s < n \<and> length s < length r\<close> body have "bf n r s = Some z"
            by (simp add: Let_def)
          from IH [OF this] le show ?thesis by simp
        next
          case False
          with \<open>length s < n \<and> length s < length r\<close> body
          have "bf n r (s @ [r ! length s]) = Some z"
            by (simp add: Let_def)
          from IH [OF this] \<open>length s < n \<and> length s < length r\<close> show ?thesis by simp
        qed
      qed
    qed
  qed
  with assms show ?thesis by simp
qed

lemma selectSentences_count:
  assumes "selectSentences num ranked = Some result"
  shows "length result = min num (length ranked)"
proof -
  have "length (select_diverse num ranked [] {}) \<le> num"
    by (rule length_select_diverse) simp
  moreover have "length (select_diverse num ranked [] {}) \<le> length ranked"
    using select_diverse_bounded [of num ranked "[]" "{}"] by simp
  ultimately show ?thesis
    using assms unfolding selectSentences_def by (intro backfill_count)
qed

lemma enhancedSummarize_when_returns:
  assumes "enhancedSummarize request = Some ordered"
  shows "length ordered
           = min (length (tokenizeSentences (sum_text request)))
                 (max 1 (nat \<lceil>real (length (tokenizeSentences (sum_text request)))
                                * lengthRatio (sum_length request)\<rceil>))"
    and "sorted (map originalIndex ordered)"
proof -
  let ?ss = "tokenizeSentences (sum_text request)"
  let ?ranked = "rankedSentences (scoredSentences (sum_text request) ?ss)"
  from assms obtain sel
    where sel: "selectSentences (numSentences (sum_length request) ?ss) ?ranked = Some sel"
    and ord: "ordered = sort_key originalIndex sel"
    by (auto simp: enhancedSummarize_def Let_def)
  have "length ?ranked = length ?ss"
    by (simp add: rankedSentences_def length_sort_desc scoredSentences_def Let_def)
  with selectSentences_count [OF sel] ord
  show "length ordered
           = min (length ?ss) (max 1 (nat \<lceil>real (length ?ss) * lengthRatio (sum_length request)\<rceil>))"
    by (simp add: numSentences_def min.commute)
  show "sorted (map originalIndex ordered)"
    by (simp add: ord)
qed

text \<open>
  Claim C1. For every text that is not blank the selection is to terminate with exactly
  \<open>min N (max 1 \<lceil>ratio * N\<rceil>)\<close> sentences. The text
  \<open>Cats purr. It is. It is. It is. Cats purr.\<close> has five sentences, so three are to be
  selected at length \<open>long\<close>. The ranking is first, fifth, second, third, fourth sentence,
  with clusters 0, 0, 1, 1, 1; the greedy pass selects the first and the second sentence.
  The backfill loop then reads the ranked list at the index 2, the number of selected
  sentences, finds the second sentence, which is selected already, and repeats with the
  same state: \<open>summarizeText\<close> never returns.
\<close>

theorem summarize_never_returns:
  "summarizeText stuck_request = None"
proof -
  let ?ranked = "[stuck_first, stuck_fifth, stuck_second, stuck_third, stuck_fourth]"
  have "backfill 3 ?ranked [stuck_first, stuck_second] = None"
    by (rule backfill_stuck) simp_all
  then have "selectSentences 3 ?ranked = None"
    unfolding selectSentences_def stuck_selected .
  then have "enhancedSummarize stuck_request = None"
    unfolding enhancedSummarize_def stuck_tokenize stuck_num stuck_ranked Let_def by simp
  moreover have "trim (sum_text stuck_request) \<noteq> []"
    unfolding stuck_request_def by code_simp
  ultimately show ?thesis
    by (simp add: summarizeText_def)
qed

section \<open>Rejected inputs\<close>

text \<open>\<^verbatim>\<open>!text.trim()\<close> holds exactly for a text of white space.\<close>

lemma trim_empty_iff: "trim s = [] \<longleftrightarrow> list_all is_space s"
proof
  assume "list_all is_space s"
  then show "trim s = []"
    by (auto simp: trim_def list_all_iff dest: set_dropWhileD)
next
  assume "trim s = []"
  then have all: "\<forall>x \<in> set (dropWhile is_space s). is_space x"
    by (simp add: trim_def)
  have "dropWhile is_space s = []"
  proof (rule ccontr)
    assume ne: "dropWhile is_space s \<noteq> []"
    then have "\<not> is_space (hd (dropWhile is_space s))"
      by (rule hd_dropWhile)
    moreover from ne have "hd (dropWhile is_space s) \<in> set (dropWhile is_space s)"
      by simp
    ultimately show False using all by blast
  qed
  then show "list_all is_space s"
    by (simp add: list_all_iff)
qed

text \<open>The guards: \<open>summarizeText\<close> rejects the texts of white space and no other, a
  text of white space is rejected by \<open>extractKeywords\<close> before anything is computed, and a
  task type that no profile has is rejected by \<open>recommendAlgorithm\<close>.\<close>

lemma summarizeText_rejects_blank_only:
  "(\<exists>e. summarizeText request = Some (Inl e)) \<longleftrightarrow> list_all is_space (sum_text request)"
  by (cases "enhancedSummarize request") (auto simp: summarizeText_def trim_empty_iff)

lemma recommendAlgorithm_no_profile:
  assumes "filter (\<lambda>algo. taskType request \<in> set (taskTypes algo)) algorithms = []"
  shows "recommendAlgorithm request = Inl RecommendationFailed"
proof -
  from assms have "recommend_body request = Inl (NoCompatibleAlgorithms (taskType request))"
    by (simp add: recommend_body_def)
  then show ?thesis
    by (simp add: recommendAlgorithm_def)
qed

lemma extractKeywords_blank:
  "list_all is_space (kw_text request) \<Longrightarrow> extractKeywords argLimit request = Inl NoTextProvided"
  by (simp add: extractKeywords_def trim_empty_iff)

text \<open>Within the number of arguments that a call takes, \<open>extractKeywords\<close> rejects the
  texts of white space and no other.\<close>

lemma extractKeywords_rejects_blank_only_within:
  assumes "0 < kw_count request" and "kw_count request \<le> argLimit"
  shows "(\<exists>e. extractKeywords argLimit request = Inl e) \<longleftrightarrow> list_all is_space (kw_text request)"
proof
  assume "\<exists>e. extractKeywords argLimit request = Inl e"
  then show "list_all is_space (kw_text request)"
    using extractKeywords_within [OF _ assms] trim_empty_iff [of "kw_text request"] by fastforce
next
  assume "list_all is_space (kw_text request)"
  then show "\<exists>e. extractKeywords argLimit request = Inl e"
    by (simp add: extractKeywords_blank)
qed

lemma greek_tokens:
  "tokenizeSentences (kw_text greek_request) = [kw_text greek_request]"
  "paragraphs (kw_text greek_request) = [kw_text greek_request]"
  "filter is_content (tokenizeWords (kw_text greek_request)) = [''alpha'', ''beta'', ''gamma'']"
  "uniq (filter is_content (tokenizeWords (kw_text greek_request)))
     = [''alpha'', ''beta'', ''gamma'']"
  "length (tokenizeWords (kw_text greek_request)) = 3"
  unfolding greek_request_def by code_simp+

lemma greek_not_blank: "trim (kw_text greek_request) \<noteq> []"
  unfolding greek_request_def by code_simp

lemma greek_standard:
  "extractWithStandardTFIDF (kw_text greek_request) [kw_text greek_request] 5
     = [(''alpha'', 1 / 3), (''beta'', 1 / 3), (''gamma'', 1 / 3)]"
  unfolding extractWithStandardTFIDF_def calculateTF_def calculateIDF_def wordDocs_def Let_def
  by (simp add: greek_tokens calculateTFIDF_def sort_desc_def sort_cmp_def kw_score_def
        js_record js_arith)

lemma greek_keywords:
  "length (enhancedFinalKeywords (kw_text greek_request)
             (keyword_documents (kw_text greek_request)) (kw_count greek_request)) = 3"
proof -
  have c: "kw_count greek_request = 3"
    by (simp add: greek_request_def)
  have d: "keyword_documents (kw_text greek_request) = [kw_text greek_request]"
    by (simp add: keyword_documents_def greek_tokens)
  have n: "ceil_times 3 (1.5) = 5"
    by (simp add: ceil_times_def)
  show ?thesis
    unfolding c d enhancedFinalKeywords_def Let_def n greek_standard
    by (simp add: length_sort_desc)
qed

text \<open>
  Claim C8. \<open>summarizeText\<close> and \<open>extractKeywords\<close> are to raise an error exactly for a
  text of white space. \<open>extractKeywords\<close> raises one for other texts too: whenever the
  method \<open>enhanced_tfidf\<close> has more keywords than a call takes arguments, spreading their
  scores into \<^verbatim>\<open>Math.max\<close> throws, and the \<^verbatim>\<open>catch\<close> of \<open>extractKeywords\<close> answers
  \<^verbatim>\<open>Keyword extraction failed\<close>, although the text is not blank.
\<close>

theorem extractKeywords_fails_beyond_argument_limit:
  assumes "trim (kw_text request) \<noteq> []"
    and "kw_method request = ''enhanced_tfidf''"
    and "argLimit < length (enhancedFinalKeywords (kw_text request)
                              (keyword_documents (kw_text request)) (kw_count request))"
  shows "extractKeywords argLimit request = Inl KeywordExtractionFailed"
  using assms
  by (simp add: extractKeywords_def enhancedExtractKeywords_def extractWithEnhancedTFIDF_def
      Math_max_spread_def Let_def)

theorem extractKeywords_fails_beyond_argument_limit_witness:
  "\<not> list_all is_space (kw_text greek_request)
   \<and> extractKeywords 2 greek_request = Inl KeywordExtractionFailed"
proof -
  have m: "kw_method greek_request = ''enhanced_tfidf''"
    by (simp add: greek_request_def)
  have l: "2 < length (enhancedFinalKeywords (kw_text greek_request)
                         (keyword_documents (kw_text greek_request)) (kw_count greek_request))"
    by (simp add: greek_keywords)
  from extractKeywords_fails_beyond_argument_limit [OF greek_not_blank m l]
  show ?thesis
    using greek_not_blank by (simp add: trim_empty_iff)
qed

section \<open>The recommender on the keyword request\<close>

lemma keyword_speed_compatible:
  "filter (\<lambda>algo. taskType keyword_speed_request \<in> set (taskTypes algo)) algorithms
     = [algorithms ! 8, algorithms ! 9]"
  by (simp add: keyword_speed_request_def algorithms_def)

lemma keyword_speed_names:
  "name (algorithms ! 8) = ''enhanced_tfidf''" "name (algorithms ! 9) = ''bert_keyword''"
  by (simp_all add: algorithms_def)

lemma keyword_speed_scores:
  "algorithmScore keyword_speed_request (algorithms ! 8) = 3"
  "algorithmScore keyword_speed_request (algorithms ! 9) = 1"
  by (simp_all add: algorithmScore_def keyword_speed_request_def algorithms_def js_arith)

text \<open>
  Claim C9. For the task \<open>keyword_extraction\<close>, text length 6000, priority \<open>speed\<close> and
  no optional field, \<open>enhanced_tfidf\<close> scores 3 (the speed bonus) and \<open>bert_keyword\<close>
  scores 1 (the long-text bonus of the medium resource tier); \<open>enhanced_tfidf\<close> is
  recommended and \<open>bert_keyword\<close> is the only alternative.
\<close>

theorem recommend_keyword_speed:
  "name (algorithms ! 8) = ''enhanced_tfidf''
   \<and> name (algorithms ! 9) = ''bert_keyword''
   \<and> algorithmScore keyword_speed_request (algorithms ! 8) = 3
   \<and> algorithmScore keyword_speed_request (algorithms ! 9) = 1
   \<and> recommendAlgorithm keyword_speed_request
       = Inr \<lparr>recommendedAlgorithm = ''enhanced_tfidf'', confidence = 1,
              alternativeAlgorithms = [(''bert_keyword'', 1 / 3)]\<rparr>"
proof -
  have "recommendAlgorithm keyword_speed_request
       = Inr \<lparr>recommendedAlgorithm = ''enhanced_tfidf'', confidence = 1,
              alternativeAlgorithms = [(''bert_keyword'', 1 / 3)]\<rparr>"
    unfolding recommendAlgorithm_def recommend_body_def keyword_speed_compatible
    by (simp add: Let_def keyword_speed_scores keyword_speed_names sort_desc_def sort_cmp_def
          js_arith)
  then show ?thesis
    by (simp add: keyword_speed_scores keyword_speed_names)
qed

end
